theory Spec2Isabelle
  imports Main
begin

section \<open>The Bumblebee daemon (src/bumblebeed.c): lifecycle, signals and shutdown\<close>

text \<open>
  The daemon is a sequence of calls into libc, libbsd, GLib and the other modules of
  Bumblebee. The model passes the state of the process explicitly: the fields of
  \<open>bb_status\<close> that \<open>bumblebeed.c\<close> reads or writes, the static counter of
  \<open>handle_signal\<close>, the group id and file-creation mask of the process, and a trace
  that records, in program order, every call that leaves \<open>bumblebeed.c\<close> and every
  write of \<open>main\<close> to \<open>bb_status.runmode\<close>. What the outside world answers
  (return values of the calls, the resolved configuration, the build flag
  \<open>WITH_PIDFILE\<close>) is read from an environment record.

  Three things are taken from outside the file. A call that leaves \<open>bumblebeed.c\<close>
  returns to its caller; only \<open>exit\<close> and the return of \<open>main\<close> end the process.
  The signal handler is a function of the state on its own: its runs are not interleaved
  with the startup of \<open>main\<close>, and what it does while the event loop runs is part of
  what the environment says about the loop. And the event loop of GLib is a parameter:
  it returns in some state, or never.
\<close>

subsection \<open>Constants of the platform headers\<close>

definition EXIT_SUCCESS :: int where "EXIT_SUCCESS = 0"
definition EXIT_FAILURE :: int where "EXIT_FAILURE = 1"

text \<open>Signal numbers of \<open>signal.h\<close> (Linux).\<close>

definition SIGHUP :: int where "SIGHUP = 1"
definition SIGINT :: int where "SIGINT = 2"
definition SIGQUIT :: int where "SIGQUIT = 3"
definition SIGPIPE :: int where "SIGPIPE = 13"
definition SIGTERM :: int where "SIGTERM = 15"

definition EEXIST :: int where "EEXIST = 17"

definition STDIN_FILENO :: int where "STDIN_FILENO = 0"
definition STDOUT_FILENO :: int where "STDOUT_FILENO = 1"
definition STDERR_FILENO :: int where "STDERR_FILENO = 2"

text \<open>The octal literals \<open>027\<close> and \<open>0644\<close> of the source.\<close>

definition octal_027 :: nat where "octal_027 = 2 * 8 + 7"
definition octal_0644 :: nat where "octal_0644 = (6 * 8 + 4) * 8 + 4"

subsection \<open>Data\<close>

datatype log_level = LOG_ERR | LOG_WARNING | LOG_NOTICE | LOG_INFO

text \<open>
  The arguments of a \<open>bb_log\<close> call after its format string. \<open>ArgStrsignal sig\<close> is
  \<open>strsignal(sig)\<close>, \<open>ArgStrerror\<close> is \<open>strerror\<close> of the current \<open>errno\<close>.
\<close>

datatype log_arg =
    ArgStr string
  | ArgInt int
  | ArgStrsignal int
  | ArgStrerror
  | ArgProgramName
  | ArgGitversion

text \<open>The values of \<open>bb_status.runmode\<close> that \<open>bumblebeed.c\<close> names.\<close>

datatype run_mode = BB_RUN_SERVER | BB_RUN_DAEMON | BB_RUN_EXIT

datatype parse_stage =
  PARSE_STAGE_LOG | PARSE_STAGE_PRECONF | PARSE_STAGE_DRIVER | PARSE_STAGE_OTHER

datatype pci_vendor = PCI_VENDOR_ID_NVIDIA | PCI_VENDOR_ID_INTEL

text \<open>
  One constructor per call that leaves \<open>bumblebeed.c\<close>, with the arguments the source
  passes. Calls whose return value the source ignores carry that value as their last
  argument, so that a failing call is visible in the trace. \<open>Set_runmode\<close> is the
  write of \<open>main\<close> to \<open>bb_status.runmode\<close>.
\<close>

datatype event =
    Init_early_config run_mode
  | Bbconfig_parse_opts parse_stage
  | Bb_init_log
  | Signal_install int
  | Init_config
  | Pci_find_gfx_by_vendor pci_vendor
  | Free_pci_id_igd
  | Bbconfig_parse_conf
  | Driver_detect
  | Bbconfig_parse_conf_driver
  | G_key_file_free
  | Check_pm_method
  | Config_dump
  | Config_validate
  | Pidfile_open string nat
  | Pidfile_write "nat option"
  | Pidfile_remove "nat option" int
  | Bb_log log_level string "log_arg list"
  | Bb_closelog
  | Getgrnam string
  | Setgid nat
  | Umask nat
  | Fork
  | Setsid
  | Chdir string
  | Open_rdwr string
  | Dup2 int int
  | Bb_dbus_init
  | SocketServer string
  | SocketClose
  | Bb_run_stopwaiting
  | Start_secondary bool
  | Stop_secondary bool
  | G_main_loop_new
  | G_timeout_add nat
  | Connections_fini
  | Unlink string int
  | Set_runmode run_mode
  | Bb_dbus_fini
  | Bb_stop_all
  | Close_fd int int

record daemon =
  trace :: "event list"
  runmode :: run_mode
  bb_socket :: int
  x_err_fd :: int
  sigpipes :: int
  process_gid :: nat
  process_umask :: nat

text \<open>The fields of \<open>bb_config\<close> that \<open>bumblebeed.c\<close> reads (a null \<open>gid_name\<close> is \<open>None\<close>).\<close>

record bb_config_t =
  gid_name :: "string option"
  pid_file :: string
  socket_path :: string
  card_shutdown_state :: int

text \<open>What \<open>pidfile_open\<close> returns: a handle, or \<open>NULL\<close> with \<open>errno\<close> and \<open>otherpid\<close>.\<close>

datatype pidfile_open_result = Pfh_opened nat | Pfh_null int int

text \<open>How a call ends: it returns a value, or it ends the process with an exit code.\<close>

datatype call_end = Returns int | Exits int

text \<open>How \<open>main\<close> ends: the process exits, or the event loop never returns.\<close>

datatype outcome = Exited int daemon | Loop_runs_forever

record env =
  WITH_PIDFILE :: bool
  bb_config :: bb_config_t
  discrete_found :: bool
  igd_found :: bool
  bbcfg_found :: bool
  config_validate_rc :: int
  pidfile_open_rc :: pidfile_open_result
  pidfile_remove_rc :: int
  getgrnam :: "string \<Rightarrow> nat option"
  setgid_rc :: "nat \<Rightarrow> int"
  fork_rc :: int
  setsid_rc :: int
  chdir_rc :: int
  open_devnull_rc :: int
  socketServer_rc :: int
  init_power_rc :: bool
  g_main_loop_run :: "daemon \<Rightarrow> daemon option"
  unlink_rc :: int
  final_power_rc :: bool
  close_rc :: int

subsection \<open>Calls\<close>

definition call :: "event \<Rightarrow> daemon \<Rightarrow> daemon" where
  "call e w = w\<lparr>trace := trace w @ [e]\<rparr>"

definition bb_log :: "log_level \<Rightarrow> string \<Rightarrow> log_arg list \<Rightarrow> daemon \<Rightarrow> daemon" where
  "bb_log lvl fmt args w = call (Bb_log lvl fmt args) w"

text \<open>
  Modelled from the spec: \<open>socketClose\<close> (bbsocket.c is not among the sources). The
  spec says the handler closes the control socket handle; a closed handle is \<open>-1\<close>.
\<close>

definition socketClose :: "daemon \<Rightarrow> daemon" where
  "socketClose w = (call SocketClose w)\<lparr>bb_socket := - 1\<rparr>"

text \<open>The events a step adds to the trace: what comes after the trace it started from.\<close>

definition emitted :: "daemon \<Rightarrow> daemon \<Rightarrow> event list" where
  "emitted w w' = drop (length (trace w)) (trace w')"

subsection \<open>\<open>handle_signal\<close> (lines 124 to 153)\<close>

definition handle_signal :: "int \<Rightarrow> daemon \<Rightarrow> daemon" where
  "handle_signal sig w =
    (if sig = SIGHUP then
       bb_log LOG_WARNING ''Received %s signal (ignoring...)\<newline>'' [ArgStrsignal sig] w
     else if sig = SIGPIPE then
       (if sigpipes w \<le> 10 then
          bb_log LOG_WARNING ''Received %s signal %i (signals 10> are ignored)\<newline>''
            [ArgStrsignal sig, ArgInt (sigpipes w + 1)] (w\<lparr>sigpipes := sigpipes w + 1\<rparr>)
        else w)
     else if sig = SIGINT \<or> sig = SIGQUIT then
       socketClose (bb_log LOG_WARNING ''Received %s signal.\<newline>'' [ArgStrsignal sig] w)
     else if sig = SIGTERM then
       call Bb_run_stopwaiting
         (socketClose (bb_log LOG_WARNING ''Received %s signal.\<newline>'' [ArgStrsignal sig] w))
     else
       bb_log LOG_WARNING ''Unhandled signal %s\<newline>'' [ArgStrsignal sig] w)"

text \<open>The handler run once for each signal of a list, in the order of delivery.\<close>

fun deliver :: "int list \<Rightarrow> daemon \<Rightarrow> daemon" where
  "deliver [] w = w"
| "deliver (sig # sigs) w = deliver sigs (handle_signal sig w)"

text \<open>A log line about a SIGPIPE: a \<open>bb_log\<close> call whose first argument is \<open>strsignal(SIGPIPE)\<close>.\<close>

fun is_sigpipe_log :: "event \<Rightarrow> bool" where
  "is_sigpipe_log (Bb_log lvl fmt (ArgStrsignal sig # args)) = (sig = SIGPIPE)"
| "is_sigpipe_log e = False"

definition sigpipe_log_lines :: "daemon \<Rightarrow> nat" where
  "sigpipe_log_lines w = length (filter is_sigpipe_log (trace w))"

subsection \<open>\<open>bb_chgid\<close> (lines 58 to 76)\<close>

text \<open>
  \<open>bb_chgid\<close> reads \<open>bb_config.gid_name\<close>; \<open>main\<close>, its only caller, calls it only
  when that pointer is not null, and the model passes the string it points to.
  \<open>getgrnam\<close> is the group database (a name to its GID), \<open>setgid_rc\<close> what
  \<open>setgid\<close> returns for a GID; a \<open>setgid\<close> that returns 0 has set the GID of the
  process.
\<close>

definition bb_chgid :: "env \<Rightarrow> string \<Rightarrow> daemon \<Rightarrow> int \<times> daemon" where
  "bb_chgid env name w0 =
    (let w = call (Getgrnam name) w0 in
     case getgrnam env name of
       None \<Rightarrow>
         (EXIT_FAILURE,
          bb_log LOG_ERR ''There is no \"%s\" group\<newline>'' [ArgStr name]
            (bb_log LOG_ERR ''%s\<newline>'' [ArgStrerror] w))
     | Some gr_gid \<Rightarrow>
         (let w = call (Setgid gr_gid) w in
          if setgid_rc env gr_gid \<noteq> 0 then
            (EXIT_FAILURE,
             bb_log LOG_ERR ''Could not set the GID of bumblebee: %s\<newline>'' [ArgStrerror] w)
          else
            (EXIT_SUCCESS,
             (call (Umask octal_027) (w\<lparr>process_gid := gr_gid\<rparr>))
               \<lparr>process_umask := octal_027\<rparr>)))"

subsection \<open>\<open>daemonize\<close> (lines 83 to 119)\<close>

text \<open>
  The model follows one process: \<open>fork_rc\<close> is what \<open>fork\<close> returns in it (negative:
  no child was made; positive: this process is the parent; zero: it is the child).
\<close>

definition daemonize :: "env \<Rightarrow> daemon \<Rightarrow> call_end \<times> daemon" where
  "daemonize env w0 =
    (let w = call Fork w0 in
     if fork_rc env < 0 then
       (Returns EXIT_FAILURE, bb_log LOG_ERR ''Could not fork to background\<newline>'' [] w)
     else if fork_rc env > 0 then
       (Exits EXIT_SUCCESS, w)
     else
       (let w = call Setsid w in
        if setsid_rc env < 0 then
          (Returns EXIT_FAILURE, bb_log LOG_ERR ''Could not set SID: %s\<newline>'' [ArgStrerror] w)
        else
          (let w = call (Chdir ''/'') w in
           if chdir_rc env < 0 then
             (Returns EXIT_FAILURE,
              bb_log LOG_ERR ''Could not change to root directory: %s\<newline>'' [ArgStrerror] w)
           else
             (let w = call (Open_rdwr ''/dev/null'') w;
                  devnull = open_devnull_rc env in
              if devnull < 0 then
                (Returns EXIT_FAILURE,
                 bb_log LOG_ERR ''Could not open /dev/null: %s\<newline>'' [ArgStrerror] w)
              else
                (Returns EXIT_SUCCESS,
                 call (Dup2 devnull STDERR_FILENO)
                   (call (Dup2 devnull STDOUT_FILENO)
                      (call (Dup2 devnull STDIN_FILENO) w)))))))"

subsection \<open>\<open>main\<close> (lines 229 to 362)\<close>

text \<open>
  \<open>main\<close> is cut at its blank lines into stages. A stage either ends the process
  (\<open>Inl\<close>, with the exit code and the final state) or hands the local \<open>pfh\<close> and the
  state to the next stage (\<open>Inr\<close>). The configuration stages of bbconfig.c are
  recorded as calls; the state \<open>main\<close> starts from holds \<open>bb_status\<close> as they leave it.
\<close>

type_synonym pidfh = "nat option"

type_synonym stage_result = "(int \<times> daemon) + (pidfh \<times> daemon)"

definition and_then :: "stage_result \<Rightarrow> (pidfh \<Rightarrow> daemon \<Rightarrow> stage_result) \<Rightarrow> stage_result" where
  "and_then r f = (case r of Inl e \<Rightarrow> Inl e | Inr (pfh, w) \<Rightarrow> f pfh w)"

fun calls :: "event list \<Rightarrow> daemon \<Rightarrow> daemon" where
  "calls [] w = w"
| "calls (e # es) w = calls es (call e w)"

text \<open>Lines 230 to 279: logging, signal handlers, configuration, the two PCI scans.\<close>

definition main_discovery :: "env \<Rightarrow> daemon \<Rightarrow> stage_result" where
  "main_discovery env w0 =
    (let w = calls
          [Init_early_config BB_RUN_SERVER,
           Bbconfig_parse_opts PARSE_STAGE_LOG,
           Bb_init_log,
           Signal_install SIGHUP,
           Signal_install SIGTERM,
           Signal_install SIGINT,
           Signal_install SIGQUIT,
           Signal_install SIGPIPE,
           Init_config,
           Bbconfig_parse_opts PARSE_STAGE_PRECONF,
           Pci_find_gfx_by_vendor PCI_VENDOR_ID_NVIDIA] w0 in
     if \<not> discrete_found env then
       Inl (EXIT_FAILURE,
            bb_log LOG_ERR ''No nVidia graphics card found, quitting.\<newline>'' [] w)
     else
       (let w = call (Pci_find_gfx_by_vendor PCI_VENDOR_ID_INTEL) w in
        if \<not> igd_found env then
          Inl (EXIT_FAILURE,
               bb_log LOG_ERR ''No Optimus system detected, quitting.\<newline>'' [] w)
        else
          (let w = calls
                [Free_pci_id_igd,
                 Bbconfig_parse_conf,
                 Bbconfig_parse_opts PARSE_STAGE_DRIVER,
                 Driver_detect] w;
               w = (if bbcfg_found env
                    then calls [Bbconfig_parse_conf_driver, G_key_file_free] w
                    else w);
               w = calls
                [Bbconfig_parse_opts PARSE_STAGE_OTHER,
                 Check_pm_method,
                 Config_dump,
                 Config_validate] w in
           if config_validate_rc env \<noteq> 0 then Inl (EXIT_FAILURE, w)
           else Inr (None, w))))"

text \<open>Lines 281 to 295, compiled only with \<open>WITH_PIDFILE\<close>.\<close>

definition main_pidfile_open :: "env \<Rightarrow> pidfh \<Rightarrow> daemon \<Rightarrow> stage_result" where
  "main_pidfile_open env pfh w0 =
    (if WITH_PIDFILE env \<and> pid_file (bb_config env) \<noteq> [] then
       (let w = call (Pidfile_open (pid_file (bb_config env)) octal_0644) w0 in
        case pidfile_open_rc env of
          Pfh_null errno otherpid \<Rightarrow>
            (let w = (if errno = EEXIST
                      then bb_log LOG_ERR ''Daemon already running, pid %d\<newline>''
                             [ArgInt otherpid] w
                      else bb_log LOG_ERR ''Cannot open or write pidfile %s.\<newline>''
                             [ArgStr (pid_file (bb_config env))] w) in
             Inl (EXIT_FAILURE, call Bb_closelog w))
        | Pfh_opened h \<Rightarrow> Inr (Some h, w))
     else Inr (pfh, w0))"

text \<open>The two lines of a fatal exit after the pidfile stage: lines 301 to 304 and 315 to 318.\<close>

definition close_and_remove :: "env \<Rightarrow> pidfh \<Rightarrow> daemon \<Rightarrow> daemon" where
  "close_and_remove env pfh w0 =
    (let w = call Bb_closelog w0 in
     if WITH_PIDFILE env then call (Pidfile_remove pfh (pidfile_remove_rc env)) w else w)"

text \<open>Lines 297 to 307.\<close>

definition main_chgid :: "env \<Rightarrow> pidfh \<Rightarrow> daemon \<Rightarrow> stage_result" where
  "main_chgid env pfh w0 =
    (case gid_name (bb_config env) of
       None \<Rightarrow> Inr (pfh, w0)
     | Some name \<Rightarrow>
         if name \<noteq> [] then
           (case bb_chgid env name w0 of
              (retval, w) \<Rightarrow>
                if retval \<noteq> EXIT_SUCCESS then Inl (retval, close_and_remove env pfh w)
                else Inr (pfh, w))
         else Inr (pfh, w0))"

text \<open>Lines 309 to 321.\<close>

definition main_daemonize :: "env \<Rightarrow> pidfh \<Rightarrow> daemon \<Rightarrow> stage_result" where
  "main_daemonize env pfh w0 =
    (let w = bb_log LOG_NOTICE ''%s %s started\<newline>'' [ArgProgramName, ArgGitversion] w0 in
     if runmode w = BB_RUN_DAEMON then
       (case daemonize env w of
          (Exits code, w) \<Rightarrow> Inl (code, w)
        | (Returns retval, w) \<Rightarrow>
            if retval \<noteq> EXIT_SUCCESS then Inl (retval, close_and_remove env pfh w)
            else Inr (pfh, w))
     else Inr (pfh, w))"

text \<open>
  Lines 323 to 337: everything up to the call of \<open>g_main_loop_run\<close>. The socket is
  always asked for with \<open>SOCK_NOBLOCK\<close>, which the event leaves out.
\<close>

definition main_service_init :: "env \<Rightarrow> pidfh \<Rightarrow> daemon \<Rightarrow> stage_result" where
  "main_service_init env pfh w0 =
    (let w = (if WITH_PIDFILE env then call (Pidfile_write pfh) w0 else w0);
         w = call Bb_dbus_init w;
         w = (call (SocketServer (socket_path (bb_config env))) w)
               \<lparr>bb_socket := socketServer_rc env\<rparr>;
         w = call (Stop_secondary (init_power_rc env)) w;
         w = bb_log LOG_INFO
               ''Initialization completed - now handling client requests\<newline>'' [] w;
         w = calls [G_main_loop_new, G_timeout_add 100] w in
     Inr (pfh, w))"

text \<open>Lines 340 to 361: what \<open>main\<close> does once \<open>g_main_loop_run\<close> has returned.\<close>

definition main_shutdown :: "env \<Rightarrow> pidfh \<Rightarrow> daemon \<Rightarrow> daemon" where
  "main_shutdown env pfh w0 =
    (let w = call Connections_fini w0;
         w = call (Unlink (socket_path (bb_config env)) (unlink_rc env)) w;
         w = (call (Set_runmode BB_RUN_EXIT) w)\<lparr>runmode := BB_RUN_EXIT\<rparr>;
         w = (if card_shutdown_state (bb_config env) \<noteq> 0
              then call (Start_secondary (final_power_rc env)) w
              else call (Stop_secondary (final_power_rc env)) w);
         w = call Bb_dbus_fini w;
         w = call Bb_closelog w;
         w = (if WITH_PIDFILE env
              then call (Pidfile_remove pfh (pidfile_remove_rc env)) w else w);
         w = call Bb_stop_all w in
     if x_err_fd w \<noteq> - 1 then
       (call (Close_fd (x_err_fd w) (close_rc env)) w)\<lparr>x_err_fd := - 1\<rparr>
     else w)"

text \<open>The startup of \<open>main\<close> up to the end of each stage.\<close>

definition startup_to_pidfile :: "env \<Rightarrow> daemon \<Rightarrow> stage_result" where
  "startup_to_pidfile env w = and_then (main_discovery env w) (main_pidfile_open env)"

definition startup_to_chgid :: "env \<Rightarrow> daemon \<Rightarrow> stage_result" where
  "startup_to_chgid env w = and_then (startup_to_pidfile env w) (main_chgid env)"

definition startup_to_daemonize :: "env \<Rightarrow> daemon \<Rightarrow> stage_result" where
  "startup_to_daemonize env w = and_then (startup_to_chgid env w) (main_daemonize env)"

definition startup_to_loop :: "env \<Rightarrow> daemon \<Rightarrow> stage_result" where
  "startup_to_loop env w = and_then (startup_to_daemonize env w) (main_service_init env)"

text \<open>
  \<open>g_main_loop_run\<close> belongs to GLib and runs the connection handler and the signal
  handlers: the environment says what state it returns in, or that it never returns.
\<close>

definition main :: "env \<Rightarrow> daemon \<Rightarrow> outcome" where
  "main env w =
    (case startup_to_loop env w of
       Inl (code, w') \<Rightarrow> Exited code w'
     | Inr (pfh, w1) \<Rightarrow>
         (case g_main_loop_run env w1 of
            None \<Rightarrow> Loop_runs_forever
          | Some w2 \<Rightarrow> Exited EXIT_SUCCESS (main_shutdown env pfh w2)))"

subsection \<open>Classes of events\<close>

fun is_power_call :: "event \<Rightarrow> bool" where
  "is_power_call (Start_secondary ok) = True"
| "is_power_call (Stop_secondary ok) = True"
| "is_power_call e = False"

fun is_socket_open :: "event \<Rightarrow> bool" where
  "is_socket_open (SocketServer path) = True"
| "is_socket_open e = False"

fun is_pidfile_open :: "event \<Rightarrow> bool" where
  "is_pidfile_open (Pidfile_open path mode) = True"
| "is_pidfile_open e = False"

fun is_pidfile_write :: "event \<Rightarrow> bool" where
  "is_pidfile_write (Pidfile_write pfh) = True"
| "is_pidfile_write e = False"

fun is_pidfile_remove :: "event \<Rightarrow> bool" where
  "is_pidfile_remove (Pidfile_remove pfh rc) = True"
| "is_pidfile_remove e = False"

fun is_already_running_log :: "event \<Rightarrow> bool" where
  "is_already_running_log (Bb_log lvl fmt args) =
     (fmt = ''Daemon already running, pid %d\<newline>'')"
| "is_already_running_log e = False"

text \<open>Calls that touch neither the GPU, nor the control socket, nor the pidfile after its opening.\<close>

definition preparatory :: "event \<Rightarrow> bool" where
  "preparatory e =
    (\<not> is_power_call e \<and> \<not> is_socket_open e \<and> \<not> is_pidfile_write e \<and>
     \<not> is_pidfile_remove e \<and> e \<noteq> Connections_fini)"

text \<open>Preparatory calls other than \<open>pidfile_open\<close>.\<close>

definition quiet :: "event \<Rightarrow> bool" where
  "quiet e = (preparatory e \<and> \<not> is_pidfile_open e)"

text \<open>Calls that neither touch the GPU nor open the control socket.\<close>

definition no_service :: "event \<Rightarrow> bool" where
  "no_service e = (\<not> is_power_call e \<and> \<not> is_socket_open e)"

text \<open>The trace of \<open>w'\<close> continues the trace of \<open>w\<close>, with events of the class \<open>P\<close> only.\<close>

definition extends :: "(event \<Rightarrow> bool) \<Rightarrow> daemon \<Rightarrow> daemon \<Rightarrow> bool" where
  "extends P w w' = (trace w' = trace w @ emitted w w' \<and> list_all P (emitted w w'))"

subsection \<open>Concrete machines\<close>

text \<open>The state of a process that has not run the handler yet, in a given run mode.\<close>

definition boot :: "run_mode \<Rightarrow> daemon" where
  "boot m =
    \<lparr>trace = [], runmode = m, bb_socket = - 1, x_err_fd = - 1, sigpipes = 0,
     process_gid = 0, process_umask = 2 * 8 + 2\<rparr>"

definition group_db :: "string \<Rightarrow> nat option" where
  "group_db name = (if name = ''bumblebee'' then Some 1001 else None)"

text \<open>
  A hybrid-graphics machine on which every call succeeds; the event loop returns after
  one SIGTERM.
\<close>

definition sound_machine :: env where
  "sound_machine =
    \<lparr>WITH_PIDFILE = True,
     bb_config =
       \<lparr>gid_name = Some ''bumblebee'', pid_file = ''/var/run/bumblebeed.pid'',
        socket_path = ''/var/run/bumblebee.socket'', card_shutdown_state = 0\<rparr>,
     discrete_found = True, igd_found = True, bbcfg_found = True,
     config_validate_rc = 0, pidfile_open_rc = Pfh_opened 7, pidfile_remove_rc = 0,
     getgrnam = group_db, setgid_rc = (\<lambda>g. 0),
     fork_rc = 0, setsid_rc = 5, chdir_rc = 0, open_devnull_rc = 3,
     socketServer_rc = 4, init_power_rc = True,
     g_main_loop_run = (\<lambda>w. Some (handle_signal SIGTERM w)),
     unlink_rc = 0, final_power_rc = True, close_rc = 0\<rparr>"

text \<open>
  The same machine with a final power policy of \<open>POWER_ON\<close> (\<open>card_shutdown_state\<close>
  is 1).
\<close>

definition power_on_machine :: env where
  "power_on_machine =
    sound_machine\<lparr>bb_config := (bb_config sound_machine)\<lparr>card_shutdown_state := 1\<rparr>\<rparr>"

text \<open>
  The same machine when every call of the shutdown sequence that can fail does, and
  the event loop returns after one SIGTERM with a diagnostic descriptor 9 captured
  from an X server.
\<close>

definition failing_shutdown_machine :: env where
  "failing_shutdown_machine =
    sound_machine\<lparr>pidfile_remove_rc := - 1, unlink_rc := - 1, final_power_rc := False,
      close_rc := - 1,
      g_main_loop_run := (\<lambda>w. Some ((handle_signal SIGTERM w)\<lparr>x_err_fd := 9\<rparr>))\<rparr>"

text \<open>
  The same machine while another instance, of PID 4242, holds the lock on the pidfile;
  and the same again when the configuration of the second instance is not valid.
\<close>

definition locked_machine :: env where
  "locked_machine = sound_machine\<lparr>pidfile_open_rc := Pfh_null EEXIST 4242\<rparr>"

definition locked_invalid_machine :: env where
  "locked_invalid_machine = locked_machine\<lparr>config_validate_rc := 1\<rparr>"

text \<open>The same machine seen from the parent process: \<open>fork\<close> returns the PID of the child.\<close>

definition parent_machine :: env where
  "parent_machine = sound_machine\<lparr>fork_rc := 4321\<rparr>"

text \<open>
  A machine without pidfile path and without group, to be run in the foreground
  (\<open>BB_RUN_SERVER\<close>).
\<close>

definition plain_machine :: env where
  "plain_machine =
    sound_machine\<lparr>bb_config :=
      \<lparr>gid_name = None, pid_file = [], socket_path = ''/var/run/bumblebee.socket'',
       card_shutdown_state = 0\<rparr>\<rparr>"

text \<open>The calls of lines 236 to 253, and those of lines 258 to 277 when a configuration file was found.\<close>

definition scan_calls :: "event list" where
  "scan_calls =
    [Init_early_config BB_RUN_SERVER, Bbconfig_parse_opts PARSE_STAGE_LOG, Bb_init_log,
     Signal_install SIGHUP, Signal_install SIGTERM, Signal_install SIGINT,
     Signal_install SIGQUIT, Signal_install SIGPIPE, Init_config,
     Bbconfig_parse_opts PARSE_STAGE_PRECONF,
     Pci_find_gfx_by_vendor PCI_VENDOR_ID_NVIDIA]"

definition config_calls :: "event list" where
  "config_calls =
    [Pci_find_gfx_by_vendor PCI_VENDOR_ID_INTEL,
     Free_pci_id_igd, Bbconfig_parse_conf, Bbconfig_parse_opts PARSE_STAGE_DRIVER,
     Driver_detect, Bbconfig_parse_conf_driver, G_key_file_free,
     Bbconfig_parse_opts PARSE_STAGE_OTHER, Check_pm_method, Config_dump,
     Config_validate]"

text \<open>The states of \<open>sound_machine\<close>, started as a daemon, at the end of each stage.\<close>

definition sound_after_pidfile :: daemon where
  "sound_after_pidfile =
    (boot BB_RUN_DAEMON)\<lparr>trace :=
       scan_calls @ config_calls @ [Pidfile_open ''/var/run/bumblebeed.pid'' octal_0644]\<rparr>"

definition sound_after_chgid :: daemon where
  "sound_after_chgid =
    sound_after_pidfile\<lparr>trace := trace sound_after_pidfile @
       [Getgrnam ''bumblebee'', Setgid 1001, Umask octal_027],
      process_gid := 1001, process_umask := octal_027\<rparr>"

definition sound_after_daemonize :: daemon where
  "sound_after_daemonize =
    sound_after_chgid\<lparr>trace := trace sound_after_chgid @
       [Bb_log LOG_NOTICE ''%s %s started\<newline>'' [ArgProgramName, ArgGitversion],
        Fork, Setsid, Chdir ''/'', Open_rdwr ''/dev/null'',
        Dup2 3 STDIN_FILENO, Dup2 3 STDOUT_FILENO, Dup2 3 STDERR_FILENO]\<rparr>"

definition sound_entry :: daemon where
  "sound_entry =
    sound_after_daemonize\<lparr>trace := trace sound_after_daemonize @
       [Pidfile_write (Some 7),
        Bb_dbus_init, SocketServer ''/var/run/bumblebee.socket'', Stop_secondary True,
        Bb_log LOG_INFO ''Initialization completed - now handling client requests\<newline>'' [],
        G_main_loop_new, G_timeout_add 100],
      bb_socket := 4\<rparr>"

text \<open>The states of \<open>plain_machine\<close>, started in the foreground, before and after lines 323 to 337.\<close>

definition plain_after_daemonize :: daemon where
  "plain_after_daemonize =
    (boot BB_RUN_SERVER)\<lparr>trace :=
       scan_calls @ config_calls @
       [Bb_log LOG_NOTICE ''%s %s started\<newline>'' [ArgProgramName, ArgGitversion]]\<rparr>"

definition plain_entry :: daemon where
  "plain_entry =
    plain_after_daemonize\<lparr>trace := trace plain_after_daemonize @
       [Pidfile_write None,
        Bb_dbus_init, SocketServer ''/var/run/bumblebee.socket'', Stop_secondary True,
        Bb_log LOG_INFO ''Initialization completed - now handling client requests\<newline>'' [],
        G_main_loop_new, G_timeout_add 100],
      bb_socket := 4\<rparr>"

text \<open>The state in which the event loop of \<open>failing_shutdown_machine\<close> returns.\<close>

definition sound_loop_exit :: daemon where
  "sound_loop_exit =
    sound_entry\<lparr>trace := trace sound_entry @
        [Bb_log LOG_WARNING ''Received %s signal.\<newline>'' [ArgStrsignal SIGTERM],
         SocketClose, Bb_run_stopwaiting],
      bb_socket := - 1, x_err_fd := 9\<rparr>"

lemmas signal_defs = SIGHUP_def SIGINT_def SIGQUIT_def SIGPIPE_def SIGTERM_def

lemmas call_defs = call_def bb_log_def socketClose_def

lemmas const_defs = EXIT_SUCCESS_def EXIT_FAILURE_def EEXIST_def STDIN_FILENO_def
  STDOUT_FILENO_def STDERR_FILENO_def octal_027_def octal_0644_def

lemmas stage_defs = main_discovery_def main_pidfile_open_def main_chgid_def
  main_daemonize_def main_service_init_def main_shutdown_def close_and_remove_def
  bb_chgid_def daemonize_def

lemmas startup_defs = startup_to_loop_def startup_to_daemonize_def startup_to_chgid_def
  startup_to_pidfile_def and_then_def

section \<open>Properties\<close>

subsection \<open>Evaluation\<close>

lemma calls_trace: "calls es w = w\<lparr>trace := trace w @ es\<rparr>"
  by (induction es arbitrary: w) (simp_all add: call_def)

text \<open>The rules that evaluate a run of \<open>main\<close> on a concrete machine.\<close>

lemmas run_defs = main_def startup_defs stage_defs Let_def calls_trace call_defs
  const_defs signal_defs sound_machine_def boot_def group_db_def

lemmas state_defs = scan_calls_def config_calls_def sound_after_pidfile_def
  sound_after_chgid_def sound_after_daemonize_def sound_entry_def

subsection \<open>The signal handler\<close>

text \<open>
  Claim C3. The handler follows the signal table. On SIGINT and on SIGQUIT it logs and
  closes the control socket handle, and nothing else of the state changes; on SIGTERM
  it does the same and then calls \<open>bb_run_stopwaiting\<close>; on SIGHUP it only logs. The
  calls made on SIGINT and SIGQUIT do not include \<open>bb_run_stopwaiting\<close>.
\<close>

theorem handle_signal_table:
  "handle_signal SIGINT w =
     w\<lparr>trace := trace w @
         [Bb_log LOG_WARNING ''Received %s signal.\<newline>'' [ArgStrsignal SIGINT], SocketClose],
       bb_socket := - 1\<rparr>
   \<and> handle_signal SIGQUIT w =
     w\<lparr>trace := trace w @
         [Bb_log LOG_WARNING ''Received %s signal.\<newline>'' [ArgStrsignal SIGQUIT], SocketClose],
       bb_socket := - 1\<rparr>
   \<and> handle_signal SIGTERM w =
     w\<lparr>trace := trace w @
         [Bb_log LOG_WARNING ''Received %s signal.\<newline>'' [ArgStrsignal SIGTERM], SocketClose,
          Bb_run_stopwaiting],
       bb_socket := - 1\<rparr>
   \<and> handle_signal SIGHUP w =
     w\<lparr>trace := trace w @
         [Bb_log LOG_WARNING ''Received %s signal (ignoring...)\<newline>'' [ArgStrsignal SIGHUP]]\<rparr>
   \<and> Bb_run_stopwaiting \<notin> set (emitted w (handle_signal SIGINT w))
   \<and> Bb_run_stopwaiting \<notin> set (emitted w (handle_signal SIGQUIT w))"
  by (simp add: handle_signal_def signal_defs call_defs emitted_def)

text \<open>
  A SIGPIPE touches the counter and the log only, and only while the counter is at
  most 10; the counter is never reset.
\<close>

lemma handle_signal_sigpipe:
  "handle_signal SIGPIPE w =
     (if sigpipes w \<le> 10 then
        w\<lparr>trace := trace w @
            [Bb_log LOG_WARNING ''Received %s signal %i (signals 10> are ignored)\<newline>''
               [ArgStrsignal SIGPIPE, ArgInt (sigpipes w + 1)]],
          sigpipes := sigpipes w + 1\<rparr>
      else w)"
  by (simp add: handle_signal_def signal_defs call_defs)

lemma sigpipe_step:
  "sigpipe_log_lines (handle_signal SIGPIPE w) =
     (if sigpipes w \<le> 10 then Suc (sigpipe_log_lines w) else sigpipe_log_lines w)"
  by (simp add: handle_signal_def signal_defs call_defs sigpipe_log_lines_def)

lemma sigpipe_counter:
  "sigpipes (handle_signal SIGPIPE w) =
     (if sigpipes w \<le> 10 then sigpipes w + 1 else sigpipes w)"
  by (simp add: handle_signal_def signal_defs call_defs)

lemma sigpipe_run:
  "sigpipes w = int k \<Longrightarrow>
   sigpipe_log_lines (deliver (replicate n SIGPIPE) w) =
     sigpipe_log_lines w + min n (11 - k)"
proof (induction n arbitrary: w k)
  case 0
  then show ?case by simp
next
  case (Suc n)
  show ?case
  proof (cases "k \<le> 10")
    case True
    then have c: "sigpipes (handle_signal SIGPIPE w) = int (Suc k)"
      using Suc.prems by (simp add: sigpipe_counter)
    have l: "sigpipe_log_lines (handle_signal SIGPIPE w) = Suc (sigpipe_log_lines w)"
      using True Suc.prems by (simp add: sigpipe_step)
    have "min (Suc n) (11 - k) = Suc (min n (11 - Suc k))"
      using True by arith
    then show ?thesis
      using Suc.IH[OF c] l by simp
  next
    case False
    then have c: "sigpipes (handle_signal SIGPIPE w) = int k"
      using Suc.prems by (simp add: sigpipe_counter)
    have l: "sigpipe_log_lines (handle_signal SIGPIPE w) = sigpipe_log_lines w"
      using False Suc.prems by (simp add: sigpipe_step)
    show ?thesis
      using Suc.IH[OF c] l False by simp
  qed
qed

text \<open>
  Claim C5. The claim says that at most 10 SIGPIPE occurrences produce a log line. The
  guard of the handler is \<open>sigpipes <= 10\<close> on a counter that starts at 0, so the
  first 11 do: from a fresh counter and an empty log, \<open>n\<close> SIGPIPE signals leave
  \<open>min n 11\<close> log lines about SIGPIPE.
\<close>

theorem sigpipe_eleven_lines:
  "sigpipe_log_lines (deliver (replicate n SIGPIPE) (w\<lparr>trace := [], sigpipes := 0\<rparr>)) = min n 11"
  using sigpipe_run[of "w\<lparr>trace := [], sigpipes := 0\<rparr>" 0 n]
  by (simp add: sigpipe_log_lines_def)

subsection \<open>Traces that continue one another\<close>

lemma emitted_eq: "trace w' = trace w @ es \<Longrightarrow> emitted w w' = es"
  by (simp add: emitted_def)

lemma extendsI: "trace w' = trace w @ es \<Longrightarrow> list_all P es \<Longrightarrow> extends P w w'"
  by (simp add: extends_def emitted_def)

lemma extends_refl: "extends P w w"
  by (simp add: extends_def emitted_def)

lemma extends_trans:
  "extends P w w1 \<Longrightarrow> extends P w1 w2 \<Longrightarrow> extends P w w2"
proof -
  assume a: "extends P w w1" and b: "extends P w1 w2"
  have "trace w2 = trace w @ (emitted w w1 @ emitted w1 w2)"
    using a b by (simp add: extends_def)
  moreover have "list_all P (emitted w w1 @ emitted w1 w2)"
    using a b by (simp add: extends_def)
  ultimately show ?thesis by (rule extendsI)
qed

lemma extends_mono:
  "extends P w w' \<Longrightarrow> (\<And>e. P e \<Longrightarrow> Q e) \<Longrightarrow> extends Q w w'"
  by (auto simp: extends_def list_all_iff)

lemma emitted_append:
  "extends P w w1 \<Longrightarrow> extends Q w1 w2 \<Longrightarrow> emitted w w2 = emitted w w1 @ emitted w1 w2"
proof -
  assume a: "extends P w w1" and b: "extends Q w1 w2"
  have "trace w2 = trace w @ (emitted w w1 @ emitted w1 w2)"
    using a b by (simp add: extends_def)
  then show ?thesis by (rule emitted_eq)
qed

lemma extends_emitted: "extends P w w' \<Longrightarrow> list_all P (emitted w w')"
  by (simp add: extends_def)

lemma quiet_preparatory: "quiet e \<Longrightarrow> preparatory e"
  by (simp add: quiet_def)

lemma preparatory_no_service: "preparatory e \<Longrightarrow> no_service e"
  by (simp add: preparatory_def no_service_def)

lemma extends_quiet_preparatory: "extends quiet w w' \<Longrightarrow> extends preparatory w w'"
  by (erule extends_mono) (rule quiet_preparatory)

lemma extends_preparatory_no_service: "extends preparatory w w' \<Longrightarrow> extends no_service w w'"
  by (erule extends_mono) (rule preparatory_no_service)

subsection \<open>The stages of \<open>main\<close>, one by one\<close>

lemma and_then_Inr:
  "and_then r f = Inr (p, w') \<longleftrightarrow> (\<exists>p0 w0. r = Inr (p0, w0) \<and> f p0 w0 = Inr (p, w'))"
  by (auto simp: and_then_def split: sum.splits)

lemma and_then_Inl:
  "and_then r f = Inl e \<longleftrightarrow> r = Inl e \<or> (\<exists>p0 w0. r = Inr (p0, w0) \<and> f p0 w0 = Inl e)"
  by (auto simp: and_then_def split: sum.splits)

lemmas class_defs = preparatory_def quiet_def

lemma main_discovery_Inl:
  "main_discovery env w = Inl (c, w') \<Longrightarrow>
     c = EXIT_FAILURE \<and> extends quiet w w' \<and> bb_socket w' = bb_socket w \<and>
     \<not> (discrete_found env \<and> igd_found env \<and> config_validate_rc env = 0)"
  by (auto simp: main_discovery_def Let_def calls_trace call_defs extends_def emitted_def
      class_defs split: if_splits)

lemma main_discovery_Inr:
  "main_discovery env w = Inr (pfh, w') \<Longrightarrow>
     pfh = None \<and> discrete_found env \<and> igd_found env \<and> config_validate_rc env = 0 \<and>
     extends quiet w w'"
  by (auto simp: main_discovery_def Let_def calls_trace call_defs extends_def emitted_def
      class_defs split: if_splits)

lemma main_discovery_no_gpu:
  "\<not> discrete_found env \<or> \<not> igd_found env \<Longrightarrow> \<exists>w'. main_discovery env w = Inl (EXIT_FAILURE, w')"
  by (auto simp: main_discovery_def Let_def)

lemma main_pidfile_open_Inl:
  "main_pidfile_open env pfh w = Inl (c, w') \<Longrightarrow> c = EXIT_FAILURE \<and> extends preparatory w w'"
  by (auto simp: main_pidfile_open_def Let_def call_defs extends_def emitted_def
      class_defs split: if_splits pidfile_open_result.splits)

lemma main_pidfile_open_Inr:
  "main_pidfile_open env pfh w = Inr (pfh', w') \<Longrightarrow> extends preparatory w w'"
  by (auto simp: main_pidfile_open_def Let_def call_defs extends_def emitted_def
      class_defs split: if_splits pidfile_open_result.splits)

lemma main_pidfile_open_unset:
  "pid_file (bb_config env) = [] \<Longrightarrow> main_pidfile_open env pfh w = Inr (pfh, w)"
  by (simp add: main_pidfile_open_def)

lemma main_pidfile_open_locked:
  "WITH_PIDFILE env \<Longrightarrow> pid_file (bb_config env) \<noteq> [] \<Longrightarrow>
   pidfile_open_rc env = Pfh_null EEXIST otherpid \<Longrightarrow>
   main_pidfile_open env pfh w =
     Inl (EXIT_FAILURE,
       w\<lparr>trace := trace w @
         [Pidfile_open (pid_file (bb_config env)) octal_0644,
          Bb_log LOG_ERR ''Daemon already running, pid %d\<newline>'' [ArgInt otherpid],
          Bb_closelog]\<rparr>)"
  by (simp add: main_pidfile_open_def Let_def call_defs)

lemma bb_chgid_extends:
  "bb_chgid env name w = (r, w1) \<Longrightarrow> extends quiet w w1"
  by (auto simp: bb_chgid_def Let_def call_defs extends_def emitted_def
      class_defs split: option.splits if_splits)

lemma daemonize_extends:
  "daemonize env w = (r, w1) \<Longrightarrow> extends quiet w w1"
  by (auto simp: daemonize_def Let_def call_defs extends_def emitted_def
      class_defs split: if_splits)

lemma bb_log_extends:
  "extends quiet w (bb_log lvl fmt args w)"
  by (simp add: call_defs extends_def emitted_def class_defs)

lemma close_and_remove_trace:
  "trace (close_and_remove env pfh w) =
     trace w @ Bb_closelog #
       (if WITH_PIDFILE env then [Pidfile_remove pfh (pidfile_remove_rc env)] else [])"
  by (simp add: close_and_remove_def Let_def call_defs)

lemma close_and_remove_extends: "extends no_service w (close_and_remove env pfh w)"
  by (rule extendsI[OF close_and_remove_trace]) (simp add: no_service_def)

lemma main_chgid_Inr:
  "main_chgid env pfh w = Inr (pfh', w') \<Longrightarrow> pfh' = pfh \<and> extends quiet w w'"
  by (auto simp: main_chgid_def extends_refl dest: bb_chgid_extends
      split: option.splits if_splits prod.splits)

lemma main_chgid_Inl:
  "main_chgid env pfh w = Inl (c, w') \<Longrightarrow>
     c \<noteq> EXIT_SUCCESS \<and> (\<exists>w1. extends quiet w w1 \<and> w' = close_and_remove env pfh w1)"
  by (auto simp: main_chgid_def dest: bb_chgid_extends
      split: option.splits if_splits prod.splits)

lemma main_daemonize_Inr:
  "main_daemonize env pfh w = Inr (pfh', w') \<Longrightarrow> pfh' = pfh \<and> extends quiet w w'"
proof -
  assume a: "main_daemonize env pfh w = Inr (pfh', w')"
  let ?b = "bb_log LOG_NOTICE ''%s %s started\<newline>'' [ArgProgramName, ArgGitversion] w"
  have "pfh' = pfh \<and> (w' = ?b \<or> w' = snd (daemonize env ?b))"
    using a by (auto simp: main_daemonize_def Let_def split: if_splits prod.splits call_end.splits)
  moreover have "extends quiet ?b (snd (daemonize env ?b))"
    by (rule daemonize_extends[of env ?b "fst (daemonize env ?b)"]) simp
  ultimately show ?thesis
    using bb_log_extends[of w] extends_trans by blast
qed

lemma main_daemonize_Inl:
  "main_daemonize env pfh w = Inl (c, w') \<Longrightarrow>
     (c = EXIT_SUCCESS \<and> extends quiet w w') \<or>
     (c \<noteq> EXIT_SUCCESS \<and> (\<exists>w1. extends quiet w w1 \<and> w' = close_and_remove env pfh w1))"
proof -
  assume a: "main_daemonize env pfh w = Inl (c, w')"
  let ?b = "bb_log LOG_NOTICE ''%s %s started\<newline>'' [ArgProgramName, ArgGitversion] w"
  have "extends quiet ?b (snd (daemonize env ?b))"
    by (rule daemonize_extends[of env ?b "fst (daemonize env ?b)"]) simp
  then have e: "extends quiet w (snd (daemonize env ?b))"
    using bb_log_extends[of w] extends_trans by blast
  have "(c = EXIT_SUCCESS \<and> w' = snd (daemonize env ?b)) \<or>
        (c \<noteq> EXIT_SUCCESS \<and> w' = close_and_remove env pfh (snd (daemonize env ?b)))"
    using a by (auto simp: main_daemonize_def Let_def daemonize_def
        split: if_splits prod.splits call_end.splits)
  then show ?thesis using e by blast
qed

lemma main_service_init_eq:
  "main_service_init env pfh w =
     Inr (pfh,
       w\<lparr>trace := trace w @
           (if WITH_PIDFILE env then [Pidfile_write pfh] else []) @
           [Bb_dbus_init, SocketServer (socket_path (bb_config env)),
            Stop_secondary (init_power_rc env),
            Bb_log LOG_INFO ''Initialization completed - now handling client requests\<newline>'' [],
            G_main_loop_new, G_timeout_add 100],
         bb_socket := socketServer_rc env\<rparr>)"
  by (simp add: main_service_init_def Let_def calls_trace call_defs)

lemma main_shutdown_trace:
  "trace (main_shutdown env pfh w) =
     trace w @
       [Connections_fini,
        Unlink (socket_path (bb_config env)) (unlink_rc env),
        Set_runmode BB_RUN_EXIT,
        (if card_shutdown_state (bb_config env) \<noteq> 0
         then Start_secondary (final_power_rc env) else Stop_secondary (final_power_rc env)),
        Bb_dbus_fini,
        Bb_closelog] @
       (if WITH_PIDFILE env then [Pidfile_remove pfh (pidfile_remove_rc env)] else []) @
       [Bb_stop_all] @
       (if x_err_fd w \<noteq> - 1 then [Close_fd (x_err_fd w) (close_rc env)] else [])"
  by (simp add: main_shutdown_def Let_def call_defs)

lemma main_shutdown_status:
  "runmode (main_shutdown env pfh w) = BB_RUN_EXIT \<and> x_err_fd (main_shutdown env pfh w) = - 1"
  by (simp add: main_shutdown_def Let_def call_defs)

subsection \<open>The startup as a whole\<close>

lemma startup_to_pidfile_Inr:
  "startup_to_pidfile env w = Inr (pfh, w1) \<Longrightarrow>
     extends preparatory w w1 \<and> discrete_found env \<and> igd_found env \<and>
     config_validate_rc env = 0 \<and> (pid_file (bb_config env) = [] \<longrightarrow> pfh = None \<and> extends quiet w w1)"
proof -
  assume a: "startup_to_pidfile env w = Inr (pfh, w1)"
  then obtain w0 where d: "main_discovery env w = Inr (None, w0)"
    and p: "main_pidfile_open env None w0 = Inr (pfh, w1)"
    using main_discovery_Inr by (fastforce simp: startup_to_pidfile_def and_then_Inr)
  have q: "extends quiet w w0" using main_discovery_Inr[OF d] by simp
  have "extends preparatory w w1"
    using extends_quiet_preparatory[OF q] main_pidfile_open_Inr[OF p] by (rule extends_trans)
  moreover have "pid_file (bb_config env) = [] \<longrightarrow> pfh = None \<and> extends quiet w w1"
    using p q by (auto simp: main_pidfile_open_unset)
  ultimately show ?thesis using main_discovery_Inr[OF d] by simp
qed

lemma startup_to_pidfile_Inl:
  "startup_to_pidfile env w = Inl (c, w') \<Longrightarrow> c = EXIT_FAILURE \<and> extends preparatory w w'"
proof -
  assume a: "startup_to_pidfile env w = Inl (c, w')"
  then consider (d) "main_discovery env w = Inl (c, w')"
    | (p) p0 w0 where "main_discovery env w = Inr (p0, w0)" "main_pidfile_open env p0 w0 = Inl (c, w')"
    by (auto simp: startup_to_pidfile_def and_then_Inl)
  then show ?thesis
  proof cases
    case d
    then show ?thesis using main_discovery_Inl[OF d] extends_quiet_preparatory by blast
  next
    case p
    have "extends preparatory w w0"
      using main_discovery_Inr[OF p(1)] extends_quiet_preparatory by blast
    then show ?thesis
      using main_pidfile_open_Inl[OF p(2)] extends_trans by blast
  qed
qed

lemma startup_to_chgid_Inr:
  "startup_to_chgid env w = Inr (pfh, w2) \<Longrightarrow>
     \<exists>w1. startup_to_pidfile env w = Inr (pfh, w1) \<and> extends quiet w1 w2"
  using main_chgid_Inr by (fastforce simp: startup_to_chgid_def and_then_Inr)

lemma startup_to_daemonize_Inr:
  "startup_to_daemonize env w = Inr (pfh, w3) \<Longrightarrow>
     \<exists>w1. startup_to_pidfile env w = Inr (pfh, w1) \<and> extends quiet w1 w3"
proof -
  assume "startup_to_daemonize env w = Inr (pfh, w3)"
  then obtain p w2 where c: "startup_to_chgid env w = Inr (p, w2)"
    and d: "main_daemonize env p w2 = Inr (pfh, w3)"
    by (auto simp: startup_to_daemonize_def and_then_Inr)
  have pp: "pfh = p" and q: "extends quiet w2 w3"
    using main_daemonize_Inr[OF d] by simp_all
  from startup_to_chgid_Inr[OF c] obtain w1
    where "startup_to_pidfile env w = Inr (p, w1)" "extends quiet w1 w2" by blast
  then show ?thesis using pp q extends_trans by blast
qed

lemma startup_to_loop_Inr:
  "startup_to_loop env w = Inr (pfh, w4) \<longleftrightarrow>
     (\<exists>w3. startup_to_daemonize env w = Inr (pfh, w3) \<and>
        main_service_init env pfh w3 = Inr (pfh, w4))"
  by (auto simp: startup_to_loop_def and_then_Inr main_service_init_eq)

lemma startup_to_loop_Inl:
  "startup_to_loop env w = Inl e \<longleftrightarrow> startup_to_daemonize env w = Inl e"
  by (auto simp: startup_to_loop_def and_then_Inl main_service_init_eq)

text \<open>After the pidfile stage, the two remaining stages end the process in one of three ways.\<close>

lemma after_pidfile_Inl:
  assumes p: "startup_to_pidfile env w = Inr (pfh, w1)"
    and e: "startup_to_daemonize env w = Inl (c, w')"
  shows "(c = EXIT_SUCCESS \<and> extends quiet w1 w') \<or>
     (c \<noteq> EXIT_SUCCESS \<and> (\<exists>w2. extends quiet w1 w2 \<and> w' = close_and_remove env pfh w2))"
proof -
  from e consider (chgid) "startup_to_chgid env w = Inl (c, w')"
    | (dmn) p2 w2 where "startup_to_chgid env w = Inr (p2, w2)"
        "main_daemonize env p2 w2 = Inl (c, w')"
    by (auto simp: startup_to_daemonize_def and_then_Inl)
  then show ?thesis
  proof cases
    case chgid
    then have "main_chgid env pfh w1 = Inl (c, w')"
      using p by (auto simp: startup_to_chgid_def and_then_Inl)
    then show ?thesis using main_chgid_Inl by blast
  next
    case dmn
    from startup_to_chgid_Inr[OF dmn(1)] p
    have pp: "p2 = pfh" and q: "extends quiet w1 w2" by auto
    from main_daemonize_Inl[OF dmn(2)] show ?thesis
    proof
      assume "c = EXIT_SUCCESS \<and> extends quiet w2 w'"
      then show ?thesis using q extends_trans by blast
    next
      assume "c \<noteq> EXIT_SUCCESS \<and> (\<exists>w3. extends quiet w2 w3 \<and> w' = close_and_remove env p2 w3)"
      then show ?thesis using q pp extends_trans by blast
    qed
  qed
qed

lemma startup_Inl_no_service:
  assumes e: "startup_to_loop env w = Inl (c, w')"
  shows "extends no_service w w'"
proof -
  have d: "startup_to_daemonize env w = Inl (c, w')"
    using e by (simp add: startup_to_loop_Inl)
  show ?thesis
  proof (cases "startup_to_pidfile env w")
    case (Inl a)
    then have "startup_to_pidfile env w = Inl (c, w')"
      using d by (simp add: startup_to_daemonize_def startup_to_chgid_def and_then_def)
    then show ?thesis
      using startup_to_pidfile_Inl extends_preparatory_no_service by blast
  next
    case (Inr b)
    obtain pfh w1 where b: "b = (pfh, w1)" by (cases b)
    have p: "startup_to_pidfile env w = Inr (pfh, w1)" using Inr b by simp
    have n1: "extends no_service w w1"
      using startup_to_pidfile_Inr[OF p] extends_preparatory_no_service by blast
    have qn: "\<And>a b. extends quiet a b \<Longrightarrow> extends no_service a b"
      using extends_quiet_preparatory extends_preparatory_no_service by blast
    from after_pidfile_Inl[OF p d] show ?thesis
    proof
      assume "c = EXIT_SUCCESS \<and> extends quiet w1 w'"
      then show ?thesis using n1 qn extends_trans by blast
    next
      assume "c \<noteq> EXIT_SUCCESS \<and> (\<exists>w2. extends quiet w1 w2 \<and> w' = close_and_remove env pfh w2)"
      then obtain w2 where "extends quiet w1 w2" "w' = close_and_remove env pfh w2" by blast
      then show ?thesis
        using n1 qn close_and_remove_extends extends_trans by blast
    qed
  qed
qed

subsection \<open>Startup failures\<close>

text \<open>
  Claim C4. When the PCI scan finds no discrete GPU or no integrated GPU, \<open>main\<close>
  returns \<open>EXIT_FAILURE\<close>, which is not zero, and up to that point it has neither
  opened the control socket nor called \<open>start_secondary\<close> or \<open>stop_secondary\<close>;
  the socket handle is as it was.
\<close>

theorem main_without_gpu:
  assumes "\<not> discrete_found env \<or> \<not> igd_found env"
  shows "\<exists>w'. main env w = Exited EXIT_FAILURE w' \<and> EXIT_FAILURE \<noteq> 0 \<and>
           list_all no_service (emitted w w') \<and> bb_socket w' = bb_socket w"
proof -
  from main_discovery_no_gpu[OF assms] obtain w'
    where d: "main_discovery env w = Inl (EXIT_FAILURE, w')" by blast
  have s: "startup_to_loop env w = Inl (EXIT_FAILURE, w')"
    using d by (simp add: startup_to_loop_def startup_to_daemonize_def startup_to_chgid_def
        startup_to_pidfile_def and_then_def)
  have "main env w = Exited EXIT_FAILURE w'"
    using s by (simp add: main_def)
  moreover have "list_all no_service (emitted w w')"
    using startup_Inl_no_service[OF s] by (rule extends_emitted)
  moreover have "bb_socket w' = bb_socket w"
    using main_discovery_Inl[OF d] by simp
  ultimately show ?thesis by (simp add: EXIT_FAILURE_def)
qed

text \<open>The machine without a discrete GPU: the run ends after the first scan.\<close>

theorem main_without_gpu_witness:
  "\<not> discrete_found (sound_machine\<lparr>discrete_found := False\<rparr>) \<and>
   main (sound_machine\<lparr>discrete_found := False\<rparr>) (boot BB_RUN_DAEMON) =
     Exited EXIT_FAILURE
       ((boot BB_RUN_DAEMON)\<lparr>trace :=
          scan_calls @
          [Bb_log LOG_ERR ''No nVidia graphics card found, quitting.\<newline>'' []]\<rparr>)"
proof -
  have h: "\<not> discrete_found (sound_machine\<lparr>discrete_found := False\<rparr>) \<or>
      \<not> igd_found (sound_machine\<lparr>discrete_found := False\<rparr>)" by simp
  from main_without_gpu[OF h, of "boot BB_RUN_DAEMON"] show ?thesis
    by (simp add: state_defs run_defs)
qed

text \<open>
  Claim C6, as amended. In a build with pidfile support, when a pidfile path is
  configured and \<open>pidfile_open\<close> would find the lock held by a live instance
  (\<open>NULL\<close> with \<open>errno = EEXIST\<close>), the daemon exits with a code that is not zero
  and never calls the power controller; and when the startup has passed hardware
  discovery and the validation of the configuration, it logs the message
  "Daemon already running" with the PID of the other instance.
\<close>

theorem already_running_exit:
  assumes "WITH_PIDFILE env" and "pid_file (bb_config env) \<noteq> []"
    and "pidfile_open_rc env = Pfh_null EEXIST otherpid"
  shows "\<exists>w'. main env w = Exited EXIT_FAILURE w' \<and> EXIT_FAILURE \<noteq> 0 \<and>
           list_all (\<lambda>e. \<not> is_power_call e) (emitted w w') \<and>
           (discrete_found env \<and> igd_found env \<and> config_validate_rc env = 0 \<longrightarrow>
              Bb_log LOG_ERR ''Daemon already running, pid %d\<newline>'' [ArgInt otherpid]
                \<in> set (emitted w w'))"
proof (cases "main_discovery env w")
  case (Inl a)
  obtain c w' where a: "a = (c, w')" by (cases a)
  have d: "main_discovery env w = Inl (c, w')" using Inl a by simp
  have c: "c = EXIT_FAILURE" and q: "extends quiet w w'"
    and n: "\<not> (discrete_found env \<and> igd_found env \<and> config_validate_rc env = 0)"
    using main_discovery_Inl[OF d] by simp_all
  have "main env w = Exited EXIT_FAILURE w'"
    using d c by (simp add: main_def startup_defs)
  moreover have "list_all (\<lambda>e. \<not> is_power_call e) (emitted w w')"
    using q by (auto simp: extends_def list_all_iff quiet_def preparatory_def)
  ultimately show ?thesis using n by (auto simp: EXIT_FAILURE_def)
next
  case (Inr b)
  obtain p w1 where b: "b = (p, w1)" by (cases b)
  have d: "main_discovery env w = Inr (p, w1)" using Inr b by simp
  have q: "extends quiet w w1" using main_discovery_Inr[OF d] by simp
  let ?es = "[Pidfile_open (pid_file (bb_config env)) octal_0644,
          Bb_log LOG_ERR ''Daemon already running, pid %d\<newline>'' [ArgInt otherpid],
          Bb_closelog]"
  let ?w' = "w1\<lparr>trace := trace w1 @ ?es\<rparr>"
  have l: "main_pidfile_open env p w1 = Inl (EXIT_FAILURE, ?w')"
    using assms by (rule main_pidfile_open_locked)
  have m: "main env w = Exited EXIT_FAILURE ?w'"
    using d l by (simp add: main_def startup_defs)
  have x: "extends preparatory w1 ?w'"
    by (rule extendsI[of _ _ ?es]) (simp_all add: preparatory_def)
  have e: "emitted w ?w' = emitted w w1 @ ?es"
    using emitted_append[OF q x] emitted_eq[of ?w' w1 ?es] by simp
  have "list_all (\<lambda>e. \<not> is_power_call e) (emitted w w1)"
    using q by (auto simp: extends_def list_all_iff quiet_def preparatory_def)
  then have "list_all (\<lambda>e. \<not> is_power_call e) (emitted w ?w')"
    by (simp add: e)
  moreover have "Bb_log LOG_ERR ''Daemon already running, pid %d\<newline>'' [ArgInt otherpid]
                \<in> set (emitted w ?w')"
    by (simp add: e)
  ultimately show ?thesis using m by (auto simp: EXIT_FAILURE_def)
qed

text \<open>The second instance on a sound machine: the whole run.\<close>

theorem already_running_exit_witness:
  "WITH_PIDFILE locked_machine \<and>
   pid_file (bb_config locked_machine) \<noteq> [] \<and>
   pidfile_open_rc locked_machine = Pfh_null EEXIST 4242 \<and>
   main locked_machine (boot BB_RUN_DAEMON) =
     Exited EXIT_FAILURE
       ((boot BB_RUN_DAEMON)\<lparr>trace :=
          scan_calls @ config_calls @
          [Pidfile_open ''/var/run/bumblebeed.pid'' octal_0644,
           Bb_log LOG_ERR ''Daemon already running, pid %d\<newline>'' [ArgInt 4242],
           Bb_closelog]\<rparr>)"
proof -
  have h1: "WITH_PIDFILE locked_machine"
    by (simp add: locked_machine_def sound_machine_def)
  have h2: "pid_file (bb_config locked_machine) \<noteq> []"
    by (simp add: locked_machine_def sound_machine_def)
  have h3: "pidfile_open_rc locked_machine = Pfh_null EEXIST 4242"
    by (simp add: locked_machine_def)
  from already_running_exit[OF h1 h2 h3, of "boot BB_RUN_DAEMON"] h1 h2 h3 show ?thesis
    by (simp add: locked_machine_def state_defs run_defs)
qed

text \<open>
  The claim as the specification states it, for every startup in which the lock is
  held, fails where the startup ends before line 283: with a configuration that does
  not validate, \<open>main\<close> returns at line 278, \<open>pidfile_open\<close> is never called and no
  line of the log says that a daemon is already running.
\<close>

theorem already_running_needs_valid_config_counterexample:
  "WITH_PIDFILE locked_invalid_machine \<and>
   pid_file (bb_config locked_invalid_machine) \<noteq> [] \<and>
   pidfile_open_rc locked_invalid_machine = Pfh_null EEXIST 4242 \<and>
   main locked_invalid_machine (boot BB_RUN_DAEMON) =
     Exited EXIT_FAILURE ((boot BB_RUN_DAEMON)\<lparr>trace := scan_calls @ config_calls\<rparr>) \<and>
   \<not> list_ex is_already_running_log (scan_calls @ config_calls)"
  by (simp add: locked_invalid_machine_def locked_machine_def state_defs run_defs)

subsection \<open>The shutdown sequence\<close>

text \<open>
  Claim C1. Once the event loop has returned, \<open>main\<close> runs the shutdown sequence
  once and exits with \<open>EXIT_SUCCESS\<close>. Its calls are, in this order and whatever
  the earlier ones returned: \<open>connections_fini\<close>, \<open>unlink\<close> of the socket path, the
  write of \<open>BB_RUN_EXIT\<close> to \<open>runmode\<close>, the final power call, \<open>bb_dbus_fini\<close>,
  \<open>bb_closelog\<close>, \<open>pidfile_remove\<close> (in a build with pidfile support),
  \<open>bb_stop_all\<close>, and \<open>close\<close> of the diagnostic descriptor (when one is open).
\<close>

theorem shutdown_coordinator_order:
  assumes "startup_to_loop env w = Inr (pfh, w1)" and "g_main_loop_run env w1 = Some w2"
  shows "main env w = Exited EXIT_SUCCESS (main_shutdown env pfh w2) \<and>
     trace (main_shutdown env pfh w2) =
       trace w2 @
         [Connections_fini,
          Unlink (socket_path (bb_config env)) (unlink_rc env),
          Set_runmode BB_RUN_EXIT,
          (if card_shutdown_state (bb_config env) \<noteq> 0
           then Start_secondary (final_power_rc env) else Stop_secondary (final_power_rc env)),
          Bb_dbus_fini,
          Bb_closelog] @
         (if WITH_PIDFILE env then [Pidfile_remove pfh (pidfile_remove_rc env)] else []) @
         [Bb_stop_all] @
         (if x_err_fd w2 \<noteq> - 1 then [Close_fd (x_err_fd w2) (close_rc env)] else []) \<and>
     runmode (main_shutdown env pfh w2) = BB_RUN_EXIT \<and>
     x_err_fd (main_shutdown env pfh w2) = - 1"
proof -
  have "main env w = Exited EXIT_SUCCESS (main_shutdown env pfh w2)"
    using assms by (simp add: main_def)
  then show ?thesis
    using main_shutdown_trace[of env pfh w2] main_shutdown_status[of env pfh w2] by simp
qed

text \<open>
  A run in which \<open>unlink\<close>, the power call, \<open>pidfile_remove\<close> and \<open>close\<close> all fail:
  the nine calls are made all the same.
\<close>

theorem shutdown_coordinator_order_witness:
  "startup_to_loop failing_shutdown_machine (boot BB_RUN_DAEMON) = Inr (Some 7, sound_entry) \<and>
   g_main_loop_run failing_shutdown_machine sound_entry = Some sound_loop_exit \<and>
   main failing_shutdown_machine (boot BB_RUN_DAEMON) =
     Exited EXIT_SUCCESS (main_shutdown failing_shutdown_machine (Some 7) sound_loop_exit) \<and>
   emitted sound_loop_exit (main_shutdown failing_shutdown_machine (Some 7) sound_loop_exit) =
     [Connections_fini, Unlink ''/var/run/bumblebee.socket'' (- 1), Set_runmode BB_RUN_EXIT,
      Stop_secondary False, Bb_dbus_fini, Bb_closelog, Pidfile_remove (Some 7) (- 1),
      Bb_stop_all, Close_fd 9 (- 1)]"
proof -
  have h1: "startup_to_loop failing_shutdown_machine (boot BB_RUN_DAEMON) = Inr (Some 7, sound_entry)"
    by (simp add: failing_shutdown_machine_def state_defs run_defs)
  have h2: "g_main_loop_run failing_shutdown_machine sound_entry = Some sound_loop_exit"
    by (simp add: failing_shutdown_machine_def state_defs
        sound_loop_exit_def handle_signal_def run_defs)
  note t = shutdown_coordinator_order[OF h1 h2]
  have f: "socket_path (bb_config failing_shutdown_machine) = ''/var/run/bumblebee.socket''"
    "unlink_rc failing_shutdown_machine = - 1"
    "card_shutdown_state (bb_config failing_shutdown_machine) = 0"
    "final_power_rc failing_shutdown_machine = False"
    "WITH_PIDFILE failing_shutdown_machine"
    "pidfile_remove_rc failing_shutdown_machine = - 1"
    "close_rc failing_shutdown_machine = - 1"
    "x_err_fd sound_loop_exit = 9"
    by (simp_all add: failing_shutdown_machine_def sound_machine_def sound_loop_exit_def)
  have "trace (main_shutdown failing_shutdown_machine (Some 7) sound_loop_exit) =
     trace sound_loop_exit @
     [Connections_fini, Unlink ''/var/run/bumblebee.socket'' (- 1), Set_runmode BB_RUN_EXIT,
      Stop_secondary False, Bb_dbus_fini, Bb_closelog, Pidfile_remove (Some 7) (- 1),
      Bb_stop_all, Close_fd 9 (- 1)]"
    using t by (simp add: f)
  then have "emitted sound_loop_exit
      (main_shutdown failing_shutdown_machine (Some 7) sound_loop_exit) =
     [Connections_fini, Unlink ''/var/run/bumblebee.socket'' (- 1), Set_runmode BB_RUN_EXIT,
      Stop_secondary False, Bb_dbus_fini, Bb_closelog, Pidfile_remove (Some 7) (- 1),
      Bb_stop_all, Close_fd 9 (- 1)]"
    by (rule emitted_eq)
  then show ?thesis using h1 h2 t by simp
qed

text \<open>
  Claim C2. On a clean shutdown (the event loop has returned) the shutdown sequence
  makes exactly one call to the power controller: \<open>start_secondary\<close> when
  \<open>card_shutdown_state\<close> is set (\<open>POWER_ON\<close>), \<open>stop_secondary\<close> when it is 0
  (\<open>POWER_OFF\<close>).
\<close>

theorem final_power_call:
  assumes "startup_to_loop env w = Inr (pfh, w1)" and "g_main_loop_run env w1 = Some w2"
  shows "main env w = Exited EXIT_SUCCESS (main_shutdown env pfh w2) \<and>
     filter is_power_call (emitted w2 (main_shutdown env pfh w2)) =
       [if card_shutdown_state (bb_config env) \<noteq> 0
        then Start_secondary (final_power_rc env) else Stop_secondary (final_power_rc env)]"
proof -
  have "main env w = Exited EXIT_SUCCESS (main_shutdown env pfh w2)"
    using assms by (simp add: main_def)
  moreover have "filter is_power_call (emitted w2 (main_shutdown env pfh w2)) =
       [if card_shutdown_state (bb_config env) \<noteq> 0
        then Start_secondary (final_power_rc env) else Stop_secondary (final_power_rc env)]"
    by (simp add: emitted_eq[OF main_shutdown_trace])
  ultimately show ?thesis by simp
qed

text \<open>Both policies: a machine configured to leave the card on, and one to turn it off.\<close>

theorem final_power_call_witness:
  "startup_to_loop power_on_machine (boot BB_RUN_DAEMON) = Inr (Some 7, sound_entry) \<and>
   g_main_loop_run power_on_machine sound_entry = Some (handle_signal SIGTERM sound_entry) \<and>
   main power_on_machine (boot BB_RUN_DAEMON) =
     Exited EXIT_SUCCESS
       (main_shutdown power_on_machine (Some 7) (handle_signal SIGTERM sound_entry)) \<and>
   filter is_power_call
     (emitted (handle_signal SIGTERM sound_entry)
        (main_shutdown power_on_machine (Some 7) (handle_signal SIGTERM sound_entry))) =
     [Start_secondary True] \<and>
   filter is_power_call
     (emitted sound_loop_exit (main_shutdown failing_shutdown_machine (Some 7) sound_loop_exit)) =
     [Stop_secondary False]"
proof -
  have h1: "startup_to_loop power_on_machine (boot BB_RUN_DAEMON) = Inr (Some 7, sound_entry)"
    by (simp add: power_on_machine_def state_defs run_defs)
  have h2: "g_main_loop_run power_on_machine sound_entry = Some (handle_signal SIGTERM sound_entry)"
    by (simp add: power_on_machine_def sound_machine_def)
  have k1: "startup_to_loop failing_shutdown_machine (boot BB_RUN_DAEMON) = Inr (Some 7, sound_entry)"
    by (simp add: failing_shutdown_machine_def state_defs run_defs)
  have k2: "g_main_loop_run failing_shutdown_machine sound_entry = Some sound_loop_exit"
    by (simp add: failing_shutdown_machine_def state_defs
        sound_loop_exit_def handle_signal_def run_defs)
  have f: "card_shutdown_state (bb_config power_on_machine) = 1"
    "final_power_rc power_on_machine = True"
    "card_shutdown_state (bb_config failing_shutdown_machine) = 0"
    "final_power_rc failing_shutdown_machine = False"
    by (simp_all add: power_on_machine_def failing_shutdown_machine_def sound_machine_def)
  from final_power_call[OF h1 h2] final_power_call[OF k1 k2] h1 h2 show ?thesis
    by (simp add: f)
qed

subsection \<open>Group and file-creation mask\<close>

text \<open>
  Claim C8. \<open>bb_chgid\<close> returns \<open>EXIT_FAILURE\<close> exactly when the group name is not
  in the group database or \<open>setgid\<close> fails, and \<open>EXIT_SUCCESS\<close> otherwise. On
  success the GID of the process is the GID of the group and the file-creation mask
  is 027; on failure the mask is what it was.
\<close>

theorem bb_chgid_contract:
  "(fst (bb_chgid env name w) = EXIT_FAILURE \<longleftrightarrow>
      (case getgrnam env name of None \<Rightarrow> True | Some gr_gid \<Rightarrow> setgid_rc env gr_gid \<noteq> 0))
   \<and> (fst (bb_chgid env name w) \<noteq> EXIT_FAILURE \<longrightarrow> fst (bb_chgid env name w) = EXIT_SUCCESS)
   \<and> (fst (bb_chgid env name w) = EXIT_SUCCESS \<longrightarrow>
        getgrnam env name = Some (process_gid (snd (bb_chgid env name w))) \<and>
        process_umask (snd (bb_chgid env name w)) = octal_027)
   \<and> (fst (bb_chgid env name w) = EXIT_FAILURE \<longrightarrow>
        process_umask (snd (bb_chgid env name w)) = process_umask w)"
  by (simp add: bb_chgid_def Let_def call_defs EXIT_SUCCESS_def EXIT_FAILURE_def
      split: option.splits)

text \<open>A group that exists, one that does not, and a \<open>setgid\<close> that is refused.\<close>

theorem bb_chgid_contract_witness:
  "fst (bb_chgid sound_machine ''bumblebee'' (boot BB_RUN_SERVER)) = EXIT_SUCCESS \<and>
   process_gid (snd (bb_chgid sound_machine ''bumblebee'' (boot BB_RUN_SERVER))) = 1001 \<and>
   process_umask (snd (bb_chgid sound_machine ''bumblebee'' (boot BB_RUN_SERVER))) = octal_027 \<and>
   fst (bb_chgid sound_machine ''video'' (boot BB_RUN_SERVER)) = EXIT_FAILURE \<and>
   process_umask (snd (bb_chgid sound_machine ''video'' (boot BB_RUN_SERVER))) =
     process_umask (boot BB_RUN_SERVER) \<and>
   fst (bb_chgid (sound_machine\<lparr>setgid_rc := (\<lambda>g. - 1)\<rparr>) ''bumblebee'' (boot BB_RUN_SERVER)) =
     EXIT_FAILURE \<and>
   process_umask
     (snd (bb_chgid (sound_machine\<lparr>setgid_rc := (\<lambda>g. - 1)\<rparr>) ''bumblebee'' (boot BB_RUN_SERVER))) =
     process_umask (boot BB_RUN_SERVER)"
proof -
  have g: "getgrnam sound_machine ''bumblebee'' = Some 1001"
    "getgrnam sound_machine ''video'' = None"
    "getgrnam (sound_machine\<lparr>setgid_rc := (\<lambda>g. - 1)\<rparr>) ''bumblebee'' = Some 1001"
    "setgid_rc sound_machine 1001 = 0"
    "setgid_rc (sound_machine\<lparr>setgid_rc := (\<lambda>g. - 1)\<rparr>) 1001 = - 1"
    by (simp_all add: sound_machine_def group_db_def)
  from bb_chgid_contract[of sound_machine "''bumblebee''" "boot BB_RUN_SERVER"]
    bb_chgid_contract[of sound_machine "''video''" "boot BB_RUN_SERVER"]
    bb_chgid_contract[of "sound_machine\<lparr>setgid_rc := (\<lambda>g. - 1)\<rparr>" "''bumblebee''"
      "boot BB_RUN_SERVER"]
  show ?thesis
    by (simp add: g EXIT_SUCCESS_def EXIT_FAILURE_def)
qed

subsection \<open>Daemonization\<close>

lemma daemonize_cases:
  "(fork_rc env < 0 \<longrightarrow>
      daemonize env w =
        (Returns EXIT_FAILURE,
         w\<lparr>trace := trace w @
             [Fork, Bb_log LOG_ERR ''Could not fork to background\<newline>'' []]\<rparr>))
   \<and> (0 < fork_rc env \<longrightarrow> daemonize env w = (Exits EXIT_SUCCESS, w\<lparr>trace := trace w @ [Fork]\<rparr>))
   \<and> (fork_rc env = 0 \<and> setsid_rc env < 0 \<longrightarrow>
      daemonize env w =
        (Returns EXIT_FAILURE,
         w\<lparr>trace := trace w @
             [Fork, Setsid, Bb_log LOG_ERR ''Could not set SID: %s\<newline>'' [ArgStrerror]]\<rparr>))
   \<and> (fork_rc env = 0 \<and> 0 \<le> setsid_rc env \<and> chdir_rc env < 0 \<longrightarrow>
      daemonize env w =
        (Returns EXIT_FAILURE,
         w\<lparr>trace := trace w @
             [Fork, Setsid, Chdir ''/'',
              Bb_log LOG_ERR ''Could not change to root directory: %s\<newline>'' [ArgStrerror]]\<rparr>))
   \<and> (fork_rc env = 0 \<and> 0 \<le> setsid_rc env \<and> 0 \<le> chdir_rc env \<and> open_devnull_rc env < 0 \<longrightarrow>
      daemonize env w =
        (Returns EXIT_FAILURE,
         w\<lparr>trace := trace w @
             [Fork, Setsid, Chdir ''/'', Open_rdwr ''/dev/null'',
              Bb_log LOG_ERR ''Could not open /dev/null: %s\<newline>'' [ArgStrerror]]\<rparr>))
   \<and> (fork_rc env = 0 \<and> 0 \<le> setsid_rc env \<and> 0 \<le> chdir_rc env \<and> 0 \<le> open_devnull_rc env \<longrightarrow>
      daemonize env w =
        (Returns EXIT_SUCCESS,
         w\<lparr>trace := trace w @
             [Fork, Setsid, Chdir ''/'', Open_rdwr ''/dev/null'',
              Dup2 (open_devnull_rc env) STDIN_FILENO,
              Dup2 (open_devnull_rc env) STDOUT_FILENO,
              Dup2 (open_devnull_rc env) STDERR_FILENO]\<rparr>))"
  by (simp add: daemonize_def Let_def call_defs)

lemma daemonize_fails_iff:
  "fst (daemonize env w) = Returns EXIT_FAILURE \<longleftrightarrow>
     fork_rc env < 0 \<or>
     fork_rc env = 0 \<and> (setsid_rc env < 0 \<or> chdir_rc env < 0 \<or> open_devnull_rc env < 0)"
  by (auto simp: daemonize_def Let_def EXIT_SUCCESS_def EXIT_FAILURE_def)

lemma main_daemonize_abort:
  assumes r: "runmode w1 = BB_RUN_DAEMON"
    and f: "fork_rc env < 0 \<or>
       fork_rc env = 0 \<and> (setsid_rc env < 0 \<or> chdir_rc env < 0 \<or> open_devnull_rc env < 0)"
  shows "\<exists>w'. main_daemonize env pfh w1 = Inl (EXIT_FAILURE, w')"
proof -
  let ?b = "bb_log LOG_NOTICE ''%s %s started\<newline>'' [ArgProgramName, ArgGitversion] w1"
  have "fst (daemonize env ?b) = Returns EXIT_FAILURE"
    using f by (simp add: daemonize_fails_iff)
  then obtain w2 where "daemonize env ?b = (Returns EXIT_FAILURE, w2)"
    by (cases "daemonize env ?b") simp
  then show ?thesis
    using r by (simp add: main_daemonize_def Let_def call_defs EXIT_SUCCESS_def EXIT_FAILURE_def)
qed

lemma main_daemonize_parent:
  assumes r: "runmode w1 = BB_RUN_DAEMON" and f: "0 < fork_rc env"
  shows "main_daemonize env pfh w1 =
     Inl (EXIT_SUCCESS,
       w1\<lparr>trace := trace w1 @
         [Bb_log LOG_NOTICE ''%s %s started\<newline>'' [ArgProgramName, ArgGitversion], Fork]\<rparr>)"
  using r f by (simp add: main_daemonize_def daemonize_def Let_def call_defs)

lemma main_of_daemonize_Inl:
  "startup_to_chgid env w0 = Inr (pfh, w1) \<Longrightarrow> main_daemonize env pfh w1 = Inl (c, w') \<Longrightarrow>
     main env w0 = Exited c w' \<and> startup_to_loop env w0 = Inl (c, w')"
  by (simp add: main_def startup_to_loop_def startup_to_daemonize_def and_then_def)

text \<open>
  Claim C7. \<open>daemonize\<close> forks. In the parent (\<open>fork\<close> returned a PID) the process
  exits at once with \<open>EXIT_SUCCESS\<close>, having made no other call. In the child it
  calls \<open>setsid\<close>, \<open>chdir("/")\<close>, opens \<open>/dev/null\<close> and duplicates that descriptor
  onto standard input, output and error, and returns \<open>EXIT_SUCCESS\<close>. When
  \<open>fork\<close>, \<open>setsid\<close>, \<open>chdir\<close> or \<open>open\<close> fails it logs and returns
  \<open>EXIT_FAILURE\<close> without going further; and a startup in daemon mode in which
  \<open>daemonize\<close> so fails ends with \<open>EXIT_FAILURE\<close>, the control socket never opened
  and the power controller never called. (\<open>w\<close> is the state in which \<open>daemonize\<close>
  is called, \<open>w0\<close> the state in which \<open>main\<close> starts, \<open>w1\<close> the state after the
  group change.)
\<close>

theorem daemonize_contract:
  "(fork_rc env < 0 \<longrightarrow>
      daemonize env w =
        (Returns EXIT_FAILURE,
         w\<lparr>trace := trace w @
             [Fork, Bb_log LOG_ERR ''Could not fork to background\<newline>'' []]\<rparr>))
   \<and> (0 < fork_rc env \<longrightarrow> daemonize env w = (Exits EXIT_SUCCESS, w\<lparr>trace := trace w @ [Fork]\<rparr>))
   \<and> (fork_rc env = 0 \<and> setsid_rc env < 0 \<longrightarrow>
      daemonize env w =
        (Returns EXIT_FAILURE,
         w\<lparr>trace := trace w @
             [Fork, Setsid, Bb_log LOG_ERR ''Could not set SID: %s\<newline>'' [ArgStrerror]]\<rparr>))
   \<and> (fork_rc env = 0 \<and> 0 \<le> setsid_rc env \<and> chdir_rc env < 0 \<longrightarrow>
      daemonize env w =
        (Returns EXIT_FAILURE,
         w\<lparr>trace := trace w @
             [Fork, Setsid, Chdir ''/'',
              Bb_log LOG_ERR ''Could not change to root directory: %s\<newline>'' [ArgStrerror]]\<rparr>))
   \<and> (fork_rc env = 0 \<and> 0 \<le> setsid_rc env \<and> 0 \<le> chdir_rc env \<and> open_devnull_rc env < 0 \<longrightarrow>
      daemonize env w =
        (Returns EXIT_FAILURE,
         w\<lparr>trace := trace w @
             [Fork, Setsid, Chdir ''/'', Open_rdwr ''/dev/null'',
              Bb_log LOG_ERR ''Could not open /dev/null: %s\<newline>'' [ArgStrerror]]\<rparr>))
   \<and> (fork_rc env = 0 \<and> 0 \<le> setsid_rc env \<and> 0 \<le> chdir_rc env \<and> 0 \<le> open_devnull_rc env \<longrightarrow>
      daemonize env w =
        (Returns EXIT_SUCCESS,
         w\<lparr>trace := trace w @
             [Fork, Setsid, Chdir ''/'', Open_rdwr ''/dev/null'',
              Dup2 (open_devnull_rc env) STDIN_FILENO,
              Dup2 (open_devnull_rc env) STDOUT_FILENO,
              Dup2 (open_devnull_rc env) STDERR_FILENO]\<rparr>))
   \<and> (startup_to_chgid env w0 = Inr (pfh, w1) \<and> runmode w1 = BB_RUN_DAEMON \<and>
        (fork_rc env < 0 \<or>
         fork_rc env = 0 \<and> (setsid_rc env < 0 \<or> chdir_rc env < 0 \<or> open_devnull_rc env < 0)) \<longrightarrow>
        (\<exists>w'. main env w0 = Exited EXIT_FAILURE w' \<and> EXIT_FAILURE \<noteq> 0 \<and>
           list_all no_service (emitted w0 w')))
   \<and> (startup_to_chgid env w0 = Inr (pfh, w1) \<and> runmode w1 = BB_RUN_DAEMON \<and> 0 < fork_rc env \<longrightarrow>
        main env w0 =
          Exited EXIT_SUCCESS
            (w1\<lparr>trace := trace w1 @
               [Bb_log LOG_NOTICE ''%s %s started\<newline>'' [ArgProgramName, ArgGitversion],
                Fork]\<rparr>))"
proof -
  have abort: "\<exists>w'. main env w0 = Exited EXIT_FAILURE w' \<and> EXIT_FAILURE \<noteq> 0 \<and>
           list_all no_service (emitted w0 w')"
    if c: "startup_to_chgid env w0 = Inr (pfh, w1)" and r: "runmode w1 = BB_RUN_DAEMON"
      and f: "fork_rc env < 0 \<or>
         fork_rc env = 0 \<and> (setsid_rc env < 0 \<or> chdir_rc env < 0 \<or> open_devnull_rc env < 0)"
  proof -
    from main_daemonize_abort[OF r f] obtain w'
      where d: "main_daemonize env pfh w1 = Inl (EXIT_FAILURE, w')" by blast
    note m = main_of_daemonize_Inl[OF c d]
    have "list_all no_service (emitted w0 w')"
      using m startup_Inl_no_service extends_emitted by blast
    then show ?thesis using m by (auto simp: EXIT_FAILURE_def)
  qed
  have parent: "main env w0 =
          Exited EXIT_SUCCESS
            (w1\<lparr>trace := trace w1 @
               [Bb_log LOG_NOTICE ''%s %s started\<newline>'' [ArgProgramName, ArgGitversion],
                Fork]\<rparr>)"
    if c: "startup_to_chgid env w0 = Inr (pfh, w1)" and r: "runmode w1 = BB_RUN_DAEMON"
      and f: "0 < fork_rc env"
    using main_of_daemonize_Inl[OF c main_daemonize_parent[OF r f]] by simp
  show ?thesis
    using daemonize_cases[of env w] abort parent by blast
qed

text \<open>The child, the parent, a failing \<open>fork\<close>, and two whole runs of \<open>main\<close>.\<close>

theorem daemonize_contract_witness:
  "daemonize sound_machine (boot BB_RUN_DAEMON) =
     (Returns EXIT_SUCCESS,
      (boot BB_RUN_DAEMON)\<lparr>trace :=
         [Fork, Setsid, Chdir ''/'', Open_rdwr ''/dev/null'',
          Dup2 3 STDIN_FILENO, Dup2 3 STDOUT_FILENO, Dup2 3 STDERR_FILENO]\<rparr>) \<and>
   daemonize parent_machine (boot BB_RUN_DAEMON) =
     (Exits EXIT_SUCCESS, (boot BB_RUN_DAEMON)\<lparr>trace := [Fork]\<rparr>) \<and>
   daemonize (sound_machine\<lparr>fork_rc := - 1\<rparr>) (boot BB_RUN_DAEMON) =
     (Returns EXIT_FAILURE,
      (boot BB_RUN_DAEMON)\<lparr>trace :=
         [Fork, Bb_log LOG_ERR ''Could not fork to background\<newline>'' []]\<rparr>) \<and>
   main parent_machine (boot BB_RUN_DAEMON) =
     Exited EXIT_SUCCESS
       (sound_after_chgid\<lparr>trace := trace sound_after_chgid @
          [Bb_log LOG_NOTICE ''%s %s started\<newline>'' [ArgProgramName, ArgGitversion],
           Fork]\<rparr>) \<and>
   main (sound_machine\<lparr>open_devnull_rc := - 1\<rparr>) (boot BB_RUN_DAEMON) =
     Exited EXIT_FAILURE
       (sound_after_chgid\<lparr>trace := trace sound_after_chgid @
          [Bb_log LOG_NOTICE ''%s %s started\<newline>'' [ArgProgramName, ArgGitversion],
           Fork, Setsid, Chdir ''/'', Open_rdwr ''/dev/null'',
           Bb_log LOG_ERR ''Could not open /dev/null: %s\<newline>'' [ArgStrerror],
           Bb_closelog, Pidfile_remove (Some 7) 0]\<rparr>)"
proof -
  have f: "fork_rc sound_machine = 0" "setsid_rc sound_machine = 5" "chdir_rc sound_machine = 0"
    "open_devnull_rc sound_machine = 3" "fork_rc parent_machine = 4321"
    by (simp_all add: sound_machine_def parent_machine_def)
  have c1: "startup_to_chgid parent_machine (boot BB_RUN_DAEMON) = Inr (Some 7, sound_after_chgid)"
    by (simp add: state_defs parent_machine_def run_defs)
  have c2: "startup_to_chgid (sound_machine\<lparr>open_devnull_rc := - 1\<rparr>) (boot BB_RUN_DAEMON) =
      Inr (Some 7, sound_after_chgid)"
    by (simp add: state_defs run_defs)
  have r: "runmode sound_after_chgid = BB_RUN_DAEMON"
    by (simp add: state_defs boot_def)
  have m: "main (sound_machine\<lparr>open_devnull_rc := - 1\<rparr>) (boot BB_RUN_DAEMON) =
     Exited EXIT_FAILURE
       (sound_after_chgid\<lparr>trace := trace sound_after_chgid @
          [Bb_log LOG_NOTICE ''%s %s started\<newline>'' [ArgProgramName, ArgGitversion],
           Fork, Setsid, Chdir ''/'', Open_rdwr ''/dev/null'',
           Bb_log LOG_ERR ''Could not open /dev/null: %s\<newline>'' [ArgStrerror],
           Bb_closelog, Pidfile_remove (Some 7) 0]\<rparr>)"
    using daemonize_contract[of "sound_machine\<lparr>open_devnull_rc := - 1\<rparr>" "boot BB_RUN_DAEMON"
        "boot BB_RUN_DAEMON" "Some 7" sound_after_chgid]
    by (simp add: state_defs run_defs)
  from daemonize_contract[of sound_machine "boot BB_RUN_DAEMON" "boot BB_RUN_DAEMON" "Some 7"
      sound_after_chgid]
    daemonize_contract[of parent_machine "boot BB_RUN_DAEMON" "boot BB_RUN_DAEMON" "Some 7"
      sound_after_chgid]
    daemonize_contract[of "sound_machine\<lparr>fork_rc := - 1\<rparr>" "boot BB_RUN_DAEMON"
      "boot BB_RUN_DAEMON" "Some 7" sound_after_chgid]
    m c1 r
  show ?thesis
    by (simp add: f boot_def)
qed

subsection \<open>The pidfile\<close>

lemma preparatory_no_remove: "list_all preparatory es \<Longrightarrow> filter is_pidfile_remove es = []"
  by (induction es) (simp_all add: preparatory_def)

lemma preparatory_no_write: "list_all preparatory es \<Longrightarrow> filter is_pidfile_write es = []"
  by (induction es) (simp_all add: preparatory_def)

lemma quiet_no_open: "list_all quiet es \<Longrightarrow> \<not> list_ex is_pidfile_open es"
  by (induction es) (simp_all add: quiet_def)

lemma main_service_init_extends:
  "main_service_init env pfh w3 = Inr (p, w4) \<Longrightarrow>
     p = pfh \<and> extends (\<lambda>e. \<not> is_pidfile_remove e \<and> \<not> is_pidfile_open e) w3 w4 \<and>
     emitted w3 w4 =
       (if WITH_PIDFILE env then [Pidfile_write pfh] else []) @
       [Bb_dbus_init, SocketServer (socket_path (bb_config env)),
        Stop_secondary (init_power_rc env),
        Bb_log LOG_INFO ''Initialization completed - now handling client requests\<newline>'' [],
        G_main_loop_new, G_timeout_add 100]"
  by (auto simp: main_service_init_eq extends_def emitted_def)

text \<open>
  Claim C9, as amended. In a build with pidfile support, take a startup that has
  passed the pidfile stage. When it then ends with an exit code that is not zero (the
  group change or the daemonization failed), the last two calls of the process are
  \<open>bb_closelog\<close> and \<open>pidfile_remove\<close>, and nothing before them released the
  pidfile, wrote to it, opened the socket, touched the GPU or started the shutdown
  sequence. When the event loop is reached and returns, \<open>main\<close> calls
  \<open>pidfile_remove\<close> once, in the shutdown sequence, and not before the loop. The
  parent that exits inside \<open>daemonize\<close> after a successful \<open>fork\<close> exits with
  \<open>EXIT_SUCCESS\<close> and never calls \<open>pidfile_remove\<close>.
\<close>

theorem pidfile_release_on_exit:
  assumes pf: "WITH_PIDFILE env" and p: "startup_to_pidfile env w = Inr (pfh, w1)"
  shows "(\<forall>c w'. main env w = Exited c w' \<and> c \<noteq> EXIT_SUCCESS \<longrightarrow>
        (\<exists>es. emitted w w' = es @ [Bb_closelog, Pidfile_remove pfh (pidfile_remove_rc env)] \<and>
           list_all preparatory es))
   \<and> (\<forall>p2 w2 w3. startup_to_loop env w = Inr (p2, w2) \<and> g_main_loop_run env w2 = Some w3 \<longrightarrow>
        main env w = Exited EXIT_SUCCESS (main_shutdown env pfh w3) \<and>
        filter is_pidfile_remove (emitted w w2) = [] \<and>
        filter is_pidfile_remove (emitted w3 (main_shutdown env pfh w3)) =
          [Pidfile_remove pfh (pidfile_remove_rc env)])
   \<and> (\<forall>p2 w2. startup_to_chgid env w = Inr (p2, w2) \<and> runmode w2 = BB_RUN_DAEMON \<and>
          0 < fork_rc env \<longrightarrow>
        (\<exists>w'. main env w = Exited EXIT_SUCCESS w' \<and>
           filter is_pidfile_remove (emitted w w') = []))"
proof -
  have fatal: "\<exists>es. emitted w w' = es @ [Bb_closelog, Pidfile_remove pfh (pidfile_remove_rc env)] \<and>
           list_all preparatory es"
    if a: "main env w = Exited c w' \<and> c \<noteq> EXIT_SUCCESS" for c w'
  proof -
  have "startup_to_loop env w = Inl (c, w')"
    using a by (auto simp: main_def split: sum.splits prod.splits option.splits)
  then have d: "startup_to_daemonize env w = Inl (c, w')"
    by (simp add: startup_to_loop_Inl)
  from after_pidfile_Inl[OF p d] a obtain w2
    where q: "extends quiet w1 w2" and w': "w' = close_and_remove env pfh w2" by blast
  have e: "extends preparatory w w2"
    using startup_to_pidfile_Inr[OF p] extends_quiet_preparatory[OF q] extends_trans by blast
  have "trace w' = trace w2 @ [Bb_closelog, Pidfile_remove pfh (pidfile_remove_rc env)]"
    using pf w' by (simp add: close_and_remove_trace)
  then have "trace w' =
      trace w @ (emitted w w2 @ [Bb_closelog, Pidfile_remove pfh (pidfile_remove_rc env)])"
    using e by (simp add: extends_def)
  then have "emitted w w' =
      emitted w w2 @ [Bb_closelog, Pidfile_remove pfh (pidfile_remove_rc env)]"
    by (rule emitted_eq)
  then show ?thesis
    using extends_emitted[OF e] by blast
  qed
  have clean: "main env w = Exited EXIT_SUCCESS (main_shutdown env pfh w3) \<and>
        filter is_pidfile_remove (emitted w w2) = [] \<and>
        filter is_pidfile_remove (emitted w3 (main_shutdown env pfh w3)) =
          [Pidfile_remove pfh (pidfile_remove_rc env)]"
    if a: "startup_to_loop env w = Inr (p2, w2) \<and> g_main_loop_run env w2 = Some w3"
    for p2 w2 w3
  proof -
  from a obtain w0 where d: "startup_to_daemonize env w = Inr (p2, w0)"
    and s: "main_service_init env p2 w0 = Inr (p2, w2)"
    by (auto simp: startup_to_loop_Inr)
  from startup_to_daemonize_Inr[OF d] p have pp: "p2 = pfh" and q: "extends quiet w1 w0"
    by auto
  have e: "extends preparatory w w0"
    using startup_to_pidfile_Inr[OF p] extends_quiet_preparatory[OF q] extends_trans by blast
  have si: "extends (\<lambda>e. \<not> is_pidfile_remove e \<and> \<not> is_pidfile_open e) w0 w2"
    using main_service_init_extends[OF s] by blast
  have "emitted w w2 = emitted w w0 @ emitted w0 w2"
    by (rule emitted_append[OF e si])
  moreover have "filter is_pidfile_remove (emitted w0 w2) = []"
    using extends_emitted[OF si] by (simp add: filter_empty_conv list_all_iff)
  ultimately have n: "filter is_pidfile_remove (emitted w w2) = []"
    using preparatory_no_remove[OF extends_emitted[OF e]] by simp
  have m: "main env w = Exited EXIT_SUCCESS (main_shutdown env pfh w3)"
    using a pp by (simp add: main_def)
  have "filter is_pidfile_remove (emitted w3 (main_shutdown env pfh w3)) =
          [Pidfile_remove pfh (pidfile_remove_rc env)]"
    using pf by (simp add: emitted_eq[OF main_shutdown_trace])
  then show ?thesis
    using m n by simp
  qed
  have parent: "\<exists>w'. main env w = Exited EXIT_SUCCESS w' \<and>
           filter is_pidfile_remove (emitted w w') = []"
    if a: "startup_to_chgid env w = Inr (p2, w2) \<and> runmode w2 = BB_RUN_DAEMON \<and> 0 < fork_rc env"
    for p2 w2
  proof -
  let ?es = "[Bb_log LOG_NOTICE ''%s %s started\<newline>'' [ArgProgramName, ArgGitversion], Fork]"
  let ?w' = "w2\<lparr>trace := trace w2 @ ?es\<rparr>"
  have c: "startup_to_chgid env w = Inr (p2, w2)" and r: "runmode w2 = BB_RUN_DAEMON"
    and f: "0 < fork_rc env" using a by simp_all
  have m: "main env w = Exited EXIT_SUCCESS ?w'"
    using main_of_daemonize_Inl[OF c main_daemonize_parent[OF r f]] by simp
  from startup_to_chgid_Inr[OF c] p have q: "extends quiet w1 w2" by auto
  have e: "extends preparatory w w2"
    using startup_to_pidfile_Inr[OF p] extends_quiet_preparatory[OF q] extends_trans by blast
  have x: "extends preparatory w2 ?w'"
    by (rule extendsI[of _ _ ?es]) (simp_all add: preparatory_def)
  have "filter is_pidfile_remove (emitted w ?w') = []"
    using extends_trans[OF e x] extends_emitted preparatory_no_remove by blast
  then show ?thesis
    using m by blast
  qed
  show ?thesis
    using fatal clean parent by blast
qed

text \<open>A run in which \<open>/dev/null\<close> cannot be opened, and a run that shuts down cleanly.\<close>

theorem pidfile_release_on_exit_witness:
  "WITH_PIDFILE (sound_machine\<lparr>open_devnull_rc := - 1\<rparr>) \<and>
   startup_to_pidfile (sound_machine\<lparr>open_devnull_rc := - 1\<rparr>) (boot BB_RUN_DAEMON) =
     Inr (Some 7, sound_after_pidfile) \<and>
   main (sound_machine\<lparr>open_devnull_rc := - 1\<rparr>) (boot BB_RUN_DAEMON) =
     Exited EXIT_FAILURE
       (sound_after_chgid\<lparr>trace := trace sound_after_chgid @
          [Bb_log LOG_NOTICE ''%s %s started\<newline>'' [ArgProgramName, ArgGitversion],
           Fork, Setsid, Chdir ''/'', Open_rdwr ''/dev/null'',
           Bb_log LOG_ERR ''Could not open /dev/null: %s\<newline>'' [ArgStrerror],
           Bb_closelog, Pidfile_remove (Some 7) 0]\<rparr>) \<and>
   EXIT_FAILURE \<noteq> EXIT_SUCCESS \<and>
   WITH_PIDFILE sound_machine \<and>
   startup_to_pidfile sound_machine (boot BB_RUN_DAEMON) = Inr (Some 7, sound_after_pidfile) \<and>
   startup_to_loop sound_machine (boot BB_RUN_DAEMON) = Inr (Some 7, sound_entry) \<and>
   g_main_loop_run sound_machine sound_entry = Some (handle_signal SIGTERM sound_entry) \<and>
   main sound_machine (boot BB_RUN_DAEMON) =
     Exited EXIT_SUCCESS (main_shutdown sound_machine (Some 7) (handle_signal SIGTERM sound_entry)) \<and>
   filter is_pidfile_remove (emitted (boot BB_RUN_DAEMON) sound_entry) = [] \<and>
   filter is_pidfile_remove
     (emitted (handle_signal SIGTERM sound_entry)
        (main_shutdown sound_machine (Some 7) (handle_signal SIGTERM sound_entry))) =
     [Pidfile_remove (Some 7) 0]"
proof -
  let ?F = "sound_machine\<lparr>open_devnull_rc := - 1\<rparr>"
  have f1: "WITH_PIDFILE ?F" and s1: "WITH_PIDFILE sound_machine"
    by (simp_all add: sound_machine_def)
  have f2: "startup_to_pidfile ?F (boot BB_RUN_DAEMON) = Inr (Some 7, sound_after_pidfile)"
    by (simp add: state_defs run_defs)
  have s2: "startup_to_pidfile sound_machine (boot BB_RUN_DAEMON) = Inr (Some 7, sound_after_pidfile)"
    by (simp add: state_defs run_defs)
  have s3: "startup_to_loop sound_machine (boot BB_RUN_DAEMON) = Inr (Some 7, sound_entry)"
    by (simp add: state_defs run_defs)
  have s4: "g_main_loop_run sound_machine sound_entry = Some (handle_signal SIGTERM sound_entry)"
    by (simp add: sound_machine_def)
  have m: "main ?F (boot BB_RUN_DAEMON) =
     Exited EXIT_FAILURE
       (sound_after_chgid\<lparr>trace := trace sound_after_chgid @
          [Bb_log LOG_NOTICE ''%s %s started\<newline>'' [ArgProgramName, ArgGitversion],
           Fork, Setsid, Chdir ''/'', Open_rdwr ''/dev/null'',
           Bb_log LOG_ERR ''Could not open /dev/null: %s\<newline>'' [ArgStrerror],
           Bb_closelog, Pidfile_remove (Some 7) 0]\<rparr>)"
    using pidfile_release_on_exit[OF f1 f2] by (simp add: state_defs run_defs)
  have r: "pidfile_remove_rc sound_machine = 0"
    by (simp add: sound_machine_def)
  have c: "main sound_machine (boot BB_RUN_DAEMON) =
      Exited EXIT_SUCCESS (main_shutdown sound_machine (Some 7) (handle_signal SIGTERM sound_entry)) \<and>
    filter is_pidfile_remove (emitted (boot BB_RUN_DAEMON) sound_entry) = [] \<and>
    filter is_pidfile_remove
     (emitted (handle_signal SIGTERM sound_entry)
        (main_shutdown sound_machine (Some 7) (handle_signal SIGTERM sound_entry))) =
     [Pidfile_remove (Some 7) 0]"
    using pidfile_release_on_exit[OF s1 s2] s3 s4 r by simp
  show ?thesis
    using f1 f2 m s1 s2 s3 s4 c by (simp add: EXIT_SUCCESS_def EXIT_FAILURE_def)
qed

text \<open>
  The claim as the specification states it, that every exit path past the pidfile
  acquisition releases the pidfile exactly once, fails in the parent process: it has
  acquired the lock (handle 7) and exits at line 93 without a call to
  \<open>pidfile_remove\<close>.
\<close>

theorem parent_exit_keeps_pidfile_counterexample:
  "WITH_PIDFILE parent_machine \<and>
   pidfile_open_rc parent_machine = Pfh_opened 7 \<and>
   startup_to_pidfile parent_machine (boot BB_RUN_DAEMON) = Inr (Some 7, sound_after_pidfile) \<and>
   main parent_machine (boot BB_RUN_DAEMON) =
     Exited EXIT_SUCCESS
       (sound_after_chgid\<lparr>trace := trace sound_after_chgid @
          [Bb_log LOG_NOTICE ''%s %s started\<newline>'' [ArgProgramName, ArgGitversion],
           Fork]\<rparr>) \<and>
   filter is_pidfile_remove
     (trace (sound_after_chgid\<lparr>trace := trace sound_after_chgid @
          [Bb_log LOG_NOTICE ''%s %s started\<newline>'' [ArgProgramName, ArgGitversion],
           Fork]\<rparr>)) = []"
  by (simp add: parent_machine_def state_defs run_defs)

text \<open>
  Claim C10. In a build with pidfile support, a startup that gets past the
  daemonization stage reaches the event loop having called \<open>pidfile_write\<close> exactly
  once, as the first call after that stage, with the handle \<open>pfh\<close>; the shutdown
  sequence does not call it again. When no pidfile path is configured, \<open>pfh\<close> is
  \<open>NULL\<close> and \<open>pidfile_open\<close> was never called: the test of the path guards the
  opening only.
\<close>

theorem pidfile_write_once:
  assumes pf: "WITH_PIDFILE env" and d: "startup_to_daemonize env w = Inr (pfh, w1)"
  shows "(\<exists>w2. startup_to_loop env w = Inr (pfh, w2) \<and>
        filter is_pidfile_write (emitted w w2) = [Pidfile_write pfh] \<and>
        take 1 (emitted w1 w2) = [Pidfile_write pfh] \<and>
        (pid_file (bb_config env) = [] \<longrightarrow>
           pfh = None \<and> \<not> list_ex is_pidfile_open (emitted w w2)))
   \<and> (\<forall>w3. filter is_pidfile_write (emitted w3 (main_shutdown env pfh w3)) = [])"
proof -
  obtain w2 where s: "main_service_init env pfh w1 = Inr (pfh, w2)"
    by (simp add: main_service_init_eq)
  have l: "startup_to_loop env w = Inr (pfh, w2)"
    using d s by (auto simp: startup_to_loop_Inr)
  have si: "extends (\<lambda>e. \<not> is_pidfile_remove e \<and> \<not> is_pidfile_open e) w1 w2"
    using main_service_init_extends[OF s] by blast
  have se: "emitted w1 w2 =
       [Pidfile_write pfh, Bb_dbus_init, SocketServer (socket_path (bb_config env)),
        Stop_secondary (init_power_rc env),
        Bb_log LOG_INFO ''Initialization completed - now handling client requests\<newline>'' [],
        G_main_loop_new, G_timeout_add 100]"
    using main_service_init_extends[OF s] pf by simp
  from startup_to_daemonize_Inr[OF d] obtain w0
    where p: "startup_to_pidfile env w = Inr (pfh, w0)" and q: "extends quiet w0 w1" by blast
  have e: "extends preparatory w w1"
    using startup_to_pidfile_Inr[OF p] extends_quiet_preparatory[OF q] extends_trans by blast
  have ap: "emitted w w2 = emitted w w1 @ emitted w1 w2"
    by (rule emitted_append[OF e si])
  have once: "filter is_pidfile_write (emitted w w2) = [Pidfile_write pfh]"
    using preparatory_no_write[OF extends_emitted[OF e]] by (simp add: ap se)
  have unset: "pfh = None \<and> \<not> list_ex is_pidfile_open (emitted w w2)"
    if u: "pid_file (bb_config env) = []"
  proof -
    have n: "pfh = None" and q0: "extends quiet w w0"
      using startup_to_pidfile_Inr[OF p] u by simp_all
    have "extends quiet w w1" using q0 q by (rule extends_trans)
    then have "\<not> list_ex is_pidfile_open (emitted w w1)"
      using extends_emitted quiet_no_open by blast
    then show ?thesis using n by (simp add: ap se)
  qed
  have sh: "filter is_pidfile_write (emitted w3 (main_shutdown env pfh w3)) = []" for w3
    by (simp add: emitted_eq[OF main_shutdown_trace])
  show ?thesis
    using l once se unset sh by auto
qed

text \<open>A machine without pidfile path, and one with.\<close>

theorem pidfile_write_once_witness:
  "WITH_PIDFILE plain_machine \<and>
   pid_file (bb_config plain_machine) = [] \<and>
   startup_to_daemonize plain_machine (boot BB_RUN_SERVER) = Inr (None, plain_after_daemonize) \<and>
   startup_to_loop plain_machine (boot BB_RUN_SERVER) = Inr (None, plain_entry) \<and>
   filter is_pidfile_write (emitted (boot BB_RUN_SERVER) plain_entry) = [Pidfile_write None] \<and>
   \<not> list_ex is_pidfile_open (emitted (boot BB_RUN_SERVER) plain_entry) \<and>
   WITH_PIDFILE sound_machine \<and>
   startup_to_daemonize sound_machine (boot BB_RUN_DAEMON) = Inr (Some 7, sound_after_daemonize) \<and>
   startup_to_loop sound_machine (boot BB_RUN_DAEMON) = Inr (Some 7, sound_entry) \<and>
   filter is_pidfile_write (emitted (boot BB_RUN_DAEMON) sound_entry) = [Pidfile_write (Some 7)]"
proof -
  have p1: "WITH_PIDFILE plain_machine" and p0: "pid_file (bb_config plain_machine) = []"
    and s1: "WITH_PIDFILE sound_machine"
    by (simp_all add: plain_machine_def sound_machine_def)
  have p2: "startup_to_daemonize plain_machine (boot BB_RUN_SERVER) =
      Inr (None, plain_after_daemonize)"
    by (simp add: plain_machine_def plain_after_daemonize_def state_defs run_defs)
  have p3: "startup_to_loop plain_machine (boot BB_RUN_SERVER) = Inr (None, plain_entry)"
    by (simp add: plain_machine_def plain_after_daemonize_def plain_entry_def state_defs
        run_defs)
  have s2: "startup_to_daemonize sound_machine (boot BB_RUN_DAEMON) =
      Inr (Some 7, sound_after_daemonize)"
    by (simp add: state_defs run_defs)
  have s3: "startup_to_loop sound_machine (boot BB_RUN_DAEMON) = Inr (Some 7, sound_entry)"
    by (simp add: state_defs run_defs)
  from pidfile_write_once[OF p1 p2] pidfile_write_once[OF s1 s2] p0 p1 p2 p3 s1 s2 s3
  show ?thesis by simp
qed

end
